theory Spec2Isabelle
  imports Main "HOL-Library.Sublist" "HOL-Library.AList"
begin

section \<open>Text\<close>

text \<open>
  Python \<open>str\<close> values are modelled as \<open>string\<close>; every \<open>char\<close> stands for one
  character with a code point below 256.
\<close>

text \<open>
  A string decoded by \<open>json.loads\<close> can hold any code point; such a string is the
  list of its code points. \<open>ustr\<close> reads a \<open>string\<close> as one.
\<close>

type_synonym ustring = "nat list"

definition ustr :: "string \<Rightarrow> ustring" where
  "ustr s = map of_char s"

text \<open>Python's \<open>needle in haystack\<close> on two strings.\<close>

fun str_in :: "'a list \<Rightarrow> 'a list \<Rightarrow> bool" where
  "str_in needle [] = (needle = [])"
| "str_in needle (c # cs) = (take (length needle) (c # cs) = needle \<or> str_in needle cs)"

text \<open>\<open>str.lower()\<close> on code points below 256.\<close>

definition lower_char :: "char \<Rightarrow> char" where
  "lower_char c =
     (let n = (of_char c :: nat)
      in if (65 \<le> n \<and> n \<le> 90) \<or> (192 \<le> n \<and> n \<le> 222 \<and> n \<noteq> 215)
         then char_of (n + 32) else c)"

definition str_lower :: "string \<Rightarrow> string" where
  "str_lower s = map lower_char s"

text \<open>\<open>str.strip()\<close>: the characters below 256 for which \<open>isspace()\<close> holds.\<close>

definition is_space :: "char \<Rightarrow> bool" where
  "is_space c =
     (let n = (of_char c :: nat)
      in (9 \<le> n \<and> n \<le> 13) \<or> (28 \<le> n \<and> n \<le> 32) \<or> n = 133 \<or> n = 160)"

definition str_strip :: "string \<Rightarrow> string" where
  "str_strip s = rev (dropWhile is_space (rev (dropWhile is_space s)))"

text \<open>\<open>os.path.basename\<close> (POSIX): the part after the last slash.\<close>

definition basename :: "string \<Rightarrow> string" where
  "basename p = rev (takeWhile (\<lambda>c. c \<noteq> CHR ''/'') (rev p))"

text \<open>
  \<open>os.path.splitext(p)[1]\<close>: the suffix from the last dot of the base name, unless
  only dots precede that dot in the base name.
\<close>

definition splitext_ext :: "string \<Rightarrow> string" where
  "splitext_ext p =
     (let b = basename p;
          stem = rev (drop 1 (dropWhile (\<lambda>c. c \<noteq> CHR ''.'') (rev b)))
      in if CHR ''.'' \<in> set b \<and> (\<exists>c \<in> set stem. c \<noteq> CHR ''.'')
         then drop (length stem) b else [])"

section \<open>Python values\<close>

text \<open>
  The values \<open>json.loads\<close> produces. \<open>JNull\<close> is Python's \<open>None\<close>. \<open>JFloat m e\<close>
  is the float read from the decimal \<open>m * 10^e\<close>; \<open>JNonFinite\<close> holds the constants
  \<open>NaN\<close>, \<open>Infinity\<close> and \<open>-Infinity\<close>. A \<open>dict\<close> is an association list in
  insertion order; lookup is \<open>map_of\<close>, assignment is \<open>AList.update\<close>.
\<close>

datatype json =
    JNull
  | JBool bool
  | JInt int
  | JFloat int int
  | JNonFinite string
  | JStr ustring
  | JArr "json list"
  | JObj "(ustring \<times> json) list"

text \<open>
  A decimal rounds to the float zero exactly when its magnitude is at most half of
  the smallest subnormal, \<open>2^-1075\<close>.
\<close>

definition float_is_zero :: "int \<Rightarrow> int \<Rightarrow> bool" where
  "float_is_zero m e = (m = 0 \<or> (e < 0 \<and> \<bar>m\<bar> * 2 ^ 1075 \<le> 10 ^ nat (- e)))"

text \<open>Truth value testing, as in \<open>if x:\<close>.\<close>

fun truthy :: "json \<Rightarrow> bool" where
  "truthy JNull = False"
| "truthy (JBool b) = b"
| "truthy (JInt n) = (n \<noteq> 0)"
| "truthy (JFloat m e) = (\<not> float_is_zero m e)"
| "truthy (JNonFinite s) = True"
| "truthy (JStr s) = (s \<noteq> [])"
| "truthy (JArr xs) = (xs \<noteq> [])"
| "truthy (JObj kvs) = (kvs \<noteq> [])"

fun py_type_name :: "json \<Rightarrow> string" where
  "py_type_name JNull = ''NoneType''"
| "py_type_name (JBool b) = ''bool''"
| "py_type_name (JInt n) = ''int''"
| "py_type_name (JFloat m e) = ''float''"
| "py_type_name (JNonFinite s) = ''float''"
| "py_type_name (JStr s) = ''str''"
| "py_type_name (JArr xs) = ''list''"
| "py_type_name (JObj kvs) = ''dict''"

text \<open>The text of the \<open>AttributeError\<close> raised by \<open>v.attr\<close> on a value without it.\<close>

definition attribute_error :: "json \<Rightarrow> string \<Rightarrow> string" where
  "attribute_error v attr =
     [CHR 0x27] @ py_type_name v @ [CHR 0x27] @ '' object has no attribute ''
       @ [CHR 0x27] @ attr @ [CHR 0x27]"

text \<open>\<open>d.get(key, default)\<close> on a dict.\<close>

definition dict_get :: "(ustring \<times> json) list \<Rightarrow> ustring \<Rightarrow> json \<Rightarrow> json" where
  "dict_get d key dflt = (case map_of d key of Some v \<Rightarrow> v | None \<Rightarrow> dflt)"

text \<open>\<open>dict(pairs)\<close>: a later pair with the same key replaces the value in place.\<close>

definition py_dict :: "(ustring \<times> json) list \<Rightarrow> (ustring \<times> json) list" where
  "py_dict pairs = foldl (\<lambda>d (k, v). AList.update k v d) [] pairs"

section \<open>Data model\<close>

text \<open>
  The Document Store (\<open>doc_map\<close>): a dict from document path to the classification
  dict, in insertion order.
\<close>

type_synonym doc_info = "(ustring \<times> json) list"
type_synonym doc_map = "(string \<times> doc_info) list"

text \<open>
  A collection node as the agent reads it: the keys \<open>name\<close>, \<open>request\<close> and \<open>item\<close> of
  a Postman item, each optional. A \<open>.get\<close> with a default reads \<open>None\<close> as the
  absent key. An absent \<open>item\<close> is the empty list of children. The values have the
  types of the collection format: names, methods, keys and values are strings, a
  request and a body are dicts, \<open>header\<close>, \<open>formdata\<close> and \<open>item\<close> are lists. A
  \<open>request\<close> of another type makes \<open>_needs_file_upload\<close> return \<open>False\<close> through its
  \<open>except\<close> clause, so such a node never reaches the loop; it is read as a node
  without a request.
\<close>

datatype url_data = UrlDict "string option" | UrlStr string | UrlNone

record header =
  header_key :: "string option"
  header_value :: "string option"

record form_field =
  field_key :: "string option"
  field_type :: "string option"
  field_value :: "string option"

record body =
  mode :: "string option"
  formdata :: "form_field list option"

record request_data =
  req_method :: "string option"
  req_url :: url_data
  req_header :: "header list option"
  req_body :: "body option"

record api_config =
  config_name :: "string option"
  config_request :: request_data

datatype node = NotADict | Node "string option" "request_data option" "node list"

text \<open>What \<open>_build_request\<close> hands to \<open>requests.request\<close>.\<close>

datatype form_part = FilePart string string string | TextPart string

record body_data =
  files :: "(string option \<times> form_part) list option"
  content :: "string option"

datatype http_payload =
    Files "(string option \<times> form_part) list"
  | Data string
  | NoPayload

record http_request =
  http_method :: string
  http_url :: string
  http_headers :: "(string \<times> string) list"
  http_payload :: http_payload

record response =
  resp_status_code :: int
  resp_text :: string
  resp_headers :: "(string \<times> string) list"

text \<open>
  The dict returned by \<open>_test_one_api\<close>. A field of option type is \<open>None\<close> when the
  dict has no such key. The key \<open>method\<close> is the field \<open>method_used\<close>.
\<close>

record attempt_result =
  api_name :: string
  method_used :: "string option"
  url :: "string option"
  file_used :: string
  document_type :: "json option"
  success :: bool
  status_code :: "int option"
  error_message :: string
  response_headers :: "(string \<times> string) list option"
  retry_success :: "bool option"
  correct_document :: "string option"

section \<open>The outside world\<close>

text \<open>
  Every answer the run gets from outside, as a value. In a sum, \<open>Inl\<close> carries the
  text of the exception raised; for an action without a result, \<open>Some\<close> carries it
  and \<open>None\<close> is success.
  \<^item> \<open>random_choice k\<close>: the number \<open>random.choice\<close> draws while endpoint \<open>k\<close> is
    processed; the element chosen from a list is the one at that number modulo
    the length.
  \<^item> \<open>open_read path\<close>: \<open>open(path).read()\<close>.
  \<^item> \<open>guess_type path\<close>: \<open>mimetypes.guess_type(path)[0]\<close>.
  \<^item> \<open>requests_request k a req\<close>: the HTTP call of attempt \<open>a\<close> (0 the first, 1 the
    retry) of endpoint \<open>k\<close>, with the timeout of 30 seconds.
  \<^item> \<open>generate_content k instructions status body\<close>: the text of the diagnosis
    model's answer for endpoint \<open>k\<close>; \<open>status\<close> and \<open>body\<close> are the two fields of
    the \<open>error_info\<close> sent.
  \<^item> \<open>classify_content j instructions path\<close>: upload of the file and the text of
    the classification model's answer, for the \<open>j\<close>-th new file.
  \<^item> \<open>path_exists path\<close>: \<open>os.path.exists(path)\<close>.
  \<^item> \<open>read_json path\<close>: \<open>json.load\<close> of the opened cache file, a dict of
    classification dicts.
  \<^item> \<open>makedirs name\<close>: \<open>os.makedirs(name, exist_ok=True)\<close> for a name that is not
    empty.
  \<^item> \<open>write_json path d\<close>: opening the file for writing and \<open>json.dump\<close> of the dict.
  \<^item> \<open>unicode_lower s\<close>: \<open>s.lower()\<close> for a string that holds a code point of 256 or
    more, from the interpreter's Unicode tables.
  \<^item> \<open>int_max_str_digits\<close>: \<open>sys.get_int_max_str_digits()\<close>, 0 when there is no
    limit.
  \<^item> \<open>json_depth_limit\<close>: the number of nested containers \<open>json.loads\<close> can enter
    before the interpreter raises \<open>RecursionError\<close>.
  Output to the console is not modelled.
\<close>

record world =
  random_choice :: "nat \<Rightarrow> nat"
  open_read :: "string \<Rightarrow> string + string"
  guess_type :: "string \<Rightarrow> string option"
  requests_request :: "nat \<Rightarrow> nat \<Rightarrow> http_request \<Rightarrow> string + response"
  generate_content :: "nat \<Rightarrow> string \<Rightarrow> int option \<Rightarrow> string \<Rightarrow> string + string"
  classify_content :: "nat \<Rightarrow> string \<Rightarrow> string \<Rightarrow> string + string"
  path_exists :: "string \<Rightarrow> bool"
  read_json :: "string \<Rightarrow> string + doc_map"
  makedirs :: "string \<Rightarrow> string option"
  write_json :: "string \<Rightarrow> doc_map \<Rightarrow> string option"
  unicode_lower :: "ustring \<Rightarrow> ustring"
  int_max_str_digits :: nat
  json_depth_limit :: nat

text \<open>
  \<open>str.lower()\<close> on a decoded string: character by character when every code point
  is below 256, where only the letters \<open>A\<close> to \<open>Z\<close> and the capital letters from
  192 to 222 change.
\<close>

definition lower_point :: "nat \<Rightarrow> nat" where
  "lower_point n =
     (if (65 \<le> n \<and> n \<le> 90) \<or> (192 \<le> n \<and> n \<le> 222 \<and> n \<noteq> 215) then n + 32 else n)"

definition ustr_lower :: "world \<Rightarrow> ustring \<Rightarrow> ustring" where
  "ustr_lower w s = (if \<forall>n \<in> set s. n < 256 then map lower_point s else unicode_lower w s)"

section \<open>\<open>json.loads\<close>\<close>

text \<open>
  The standard library's decoder for a \<open>str\<close>, in its default (strict) mode: a lexer
  into tokens and a recursive-descent parser over them. A result of \<open>None\<close> is a
  raised exception: a \<open>JSONDecodeError\<close>, the \<open>ValueError\<close> of an integer with more
  digits than \<open>int_max_str_digits\<close>, or the \<open>RecursionError\<close> of containers nested
  deeper than \<open>json_depth_limit\<close>. The callers catch all of them alike.
\<close>

datatype token = TLBrace | TRBrace | TLBracket | TRBracket | TColon | TComma | TAtom json

definition is_digit :: "char \<Rightarrow> bool" where
  "is_digit c = (48 \<le> (of_char c :: nat) \<and> (of_char c :: nat) \<le> 57)"

definition digits_val :: "string \<Rightarrow> int" where
  "digits_val ds = foldl (\<lambda>a c. 10 * a + (int (of_char c) - 48)) 0 ds"

definition hex_val :: "char \<Rightarrow> nat option" where
  "hex_val c =
     (let n = (of_char c :: nat)
      in if 48 \<le> n \<and> n \<le> 57 then Some (n - 48)
         else if 65 \<le> n \<and> n \<le> 70 then Some (n - 55)
         else if 97 \<le> n \<and> n \<le> 102 then Some (n - 87)
         else None)"

definition hex4 :: "string \<Rightarrow> nat option" where
  "hex4 s =
     (case map hex_val s of
        [Some a, Some b, Some c, Some d] \<Rightarrow> Some (((a * 16 + b) * 16 + c) * 16 + d)
      | _ \<Rightarrow> None)"

definition unescape :: "char \<Rightarrow> char option" where
  "unescape e =
     (if e = CHR 0x22 then Some (CHR 0x22)
      else if e = CHR 0x5C then Some (CHR 0x5C)
      else if e = CHR ''/'' then Some (CHR ''/'')
      else if e = CHR ''b'' then Some (CHR 0x08)
      else if e = CHR ''f'' then Some (CHR 0x0C)
      else if e = CHR ''n'' then Some (CHR 0x0A)
      else if e = CHR ''r'' then Some (CHR 0x0D)
      else if e = CHR ''t'' then Some (CHR 0x09)
      else None)"

definition is_high_surrogate :: "nat \<Rightarrow> bool" where
  "is_high_surrogate n = (0xD800 \<le> n \<and> n \<le> 0xDBFF)"

definition is_low_surrogate :: "nat \<Rightarrow> bool" where
  "is_low_surrogate n = (0xDC00 \<le> n \<and> n \<le> 0xDFFF)"

definition join_surrogates :: "nat \<Rightarrow> nat \<Rightarrow> nat" where
  "join_surrogates hi lo = 0x10000 + ((hi - 0xD800) * 1024 + (lo - 0xDC00))"

text \<open>
  \<open>scanstring\<close>, on the text after the opening quote: the decoded string, as code
  points, and the number of characters read, the closing quote included. An escape
  \<open>\uXXXX\<close> gives the code point \<open>XXXX\<close>; a high surrogate followed by the escape
  of a low surrogate gives the one code point the pair encodes.
\<close>

fun scan_string :: "string \<Rightarrow> (ustring \<times> nat) option" where
  "scan_string [] = None"
| "scan_string (c # cs) =
     (if c = CHR 0x22 then Some ([], 1)
      else if c = CHR 0x5C then
        (case cs of
           [] \<Rightarrow> None
         | e # es \<Rightarrow>
             if e = CHR ''u'' then
               (case hex4 (take 4 es) of
                  None \<Rightarrow> None
                | Some uni \<Rightarrow>
                    if is_high_surrogate uni \<and> take 2 (drop 4 es) = [CHR 0x5C, CHR ''u''] then
                      (case hex4 (take 4 (drop 6 es)) of
                         None \<Rightarrow> None
                       | Some uni2 \<Rightarrow>
                           if is_low_surrogate uni2 then
                             (case scan_string (drop 10 es) of
                                None \<Rightarrow> None
                              | Some (s, k) \<Rightarrow> Some (join_surrogates uni uni2 # s, k + 12))
                           else
                             (case scan_string (drop 4 es) of
                                None \<Rightarrow> None
                              | Some (s, k) \<Rightarrow> Some (uni # s, k + 6)))
                    else
                      (case scan_string (drop 4 es) of
                         None \<Rightarrow> None
                       | Some (s, k) \<Rightarrow> Some (uni # s, k + 6)))
             else
               (case unescape e of
                  None \<Rightarrow> None
                | Some d \<Rightarrow>
                    (case scan_string es of
                       None \<Rightarrow> None
                     | Some (s, k) \<Rightarrow> Some (of_char d # s, k + 2))))
      else if (of_char c :: nat) < 32 then None
      else (case scan_string cs of
              None \<Rightarrow> None
            | Some (s, k) \<Rightarrow> Some (of_char c # s, Suc k)))"

text \<open>
  \<open>NUMBER_RE\<close>, \<open>(-?(?:0|[1-9][0-9]*))(\.[0-9]+)?([eE][-+]?[0-9]+)?\<close>, tried at the head
  of the text: the value and the number of characters matched. Without fraction
  and exponent the value is \<open>int(...)\<close> of the digits, which raises when there are
  more digits than the interpreter's limit; a limit of 0 is no limit.
\<close>

definition scan_number :: "world \<Rightarrow> string \<Rightarrow> (json \<times> nat) option option" where
  "scan_number w s =
     (let neg = (take 1 s = ''-'');
          s1 = (if neg then drop 1 s else s);
          ds = takeWhile is_digit s1;
          int_part = (if take 1 ds = ''0'' then ''0'' else ds)
      in if int_part = [] then Some None
         else
           (let s2 = drop (length int_part) s1;
                fds = (if take 1 s2 = ''.'' then takeWhile is_digit (drop 1 s2) else []);
                frac_len = (if fds = [] then 0 else Suc (length fds));
                s3 = drop frac_len s2;
                has_e = (take 1 s3 = ''e'' \<or> take 1 s3 = ''E'');
                sign = (if take 1 (drop 1 s3) = ''-'' \<or> take 1 (drop 1 s3) = ''+''
                        then take 1 (drop 1 s3) else []);
                eds = (if has_e then takeWhile is_digit (drop (Suc (length sign)) s3) else []);
                exp_len = (if eds = [] then 0 else Suc (length sign + length eds));
                n = (if neg then 1 else 0) + length int_part + frac_len + exp_len;
                sg = (if neg then - 1 else 1);
                ex = (if sign = ''-'' then - digits_val eds else digits_val eds)
            in if fds = [] \<and> eds = [] then
                 (if 0 < int_max_str_digits w \<and> int_max_str_digits w < length int_part
                  then None
                  else Some (Some (JInt (sg * digits_val int_part), n)))
               else Some (Some (JFloat (sg * digits_val (int_part @ fds))
                                  (ex - int (length fds)), n))))"

definition is_json_space :: "char \<Rightarrow> bool" where
  "is_json_space c = (c = CHR '' '' \<or> c = CHR 0x09 \<or> c = CHR 0x0A \<or> c = CHR 0x0D)"

definition emit :: "token \<Rightarrow> token list option \<Rightarrow> token list option" where
  "emit t r = map_option ((#) t) r"

text \<open>
  For \<open>scan_number\<close>, \<open>None\<close> is the raised \<open>ValueError\<close> and \<open>Some None\<close> is no match
  of the pattern.
\<close>

fun tokenize :: "world \<Rightarrow> string \<Rightarrow> token list option" where
  "tokenize w [] = Some []"
| "tokenize w (c # cs) =
     (if is_json_space c then tokenize w cs
      else if c = CHR ''{'' then emit TLBrace (tokenize w cs)
      else if c = CHR ''}'' then emit TRBrace (tokenize w cs)
      else if c = CHR ''['' then emit TLBracket (tokenize w cs)
      else if c = CHR '']'' then emit TRBracket (tokenize w cs)
      else if c = CHR '':'' then emit TColon (tokenize w cs)
      else if c = CHR '','' then emit TComma (tokenize w cs)
      else if c = CHR 0x22 then
        (case scan_string cs of
           None \<Rightarrow> None
         | Some (s, n) \<Rightarrow> emit (TAtom (JStr s)) (tokenize w (drop n cs)))
      else if take 4 (c # cs) = ''null'' then emit (TAtom JNull) (tokenize w (drop 3 cs))
      else if take 4 (c # cs) = ''true'' then emit (TAtom (JBool True)) (tokenize w (drop 3 cs))
      else if take 5 (c # cs) = ''false'' then emit (TAtom (JBool False)) (tokenize w (drop 4 cs))
      else
        (case scan_number w (c # cs) of
           None \<Rightarrow> None
         | Some (Some (v, n)) \<Rightarrow> emit (TAtom v) (tokenize w (drop (n - 1) cs))
         | Some None \<Rightarrow>
             if take 3 (c # cs) = ''NaN'' then
               emit (TAtom (JNonFinite ''NaN'')) (tokenize w (drop 2 cs))
             else if take 8 (c # cs) = ''Infinity'' then
               emit (TAtom (JNonFinite ''Infinity'')) (tokenize w (drop 7 cs))
             else if take 9 (c # cs) = ''-Infinity'' then
               emit (TAtom (JNonFinite ''-Infinity'')) (tokenize w (drop 8 cs))
             else None))"

text \<open>
  The parser returns the value and the number of tokens read. \<open>parse_members\<close>
  reads \<open>"key": value\<close> pairs up to the closing brace, \<open>parse_elements\<close> reads
  values up to the closing bracket. \<open>depth\<close> is the number of containers already
  entered; entering one more than \<open>json_depth_limit\<close> allows raises.
\<close>

fun parse_value :: "world \<Rightarrow> nat \<Rightarrow> token list \<Rightarrow> (json \<times> nat) option"
  and parse_members :: "world \<Rightarrow> nat \<Rightarrow> token list \<Rightarrow> ((ustring \<times> json) list \<times> nat) option"
  and parse_elements :: "world \<Rightarrow> nat \<Rightarrow> token list \<Rightarrow> (json list \<times> nat) option"
where
  "parse_value w depth [] = None"
| "parse_value w depth (t # ts) =
     (case t of
        TAtom v \<Rightarrow> Some (v, 1)
      | TLBrace \<Rightarrow>
          if json_depth_limit w \<le> depth then None
          else
            (case ts of
               TRBrace # _ \<Rightarrow> Some (JObj [], 2)
             | _ \<Rightarrow> (case parse_members w (Suc depth) ts of
                       None \<Rightarrow> None
                     | Some (pairs, n) \<Rightarrow> Some (JObj (py_dict pairs), Suc n)))
      | TLBracket \<Rightarrow>
          if json_depth_limit w \<le> depth then None
          else
            (case ts of
               TRBracket # _ \<Rightarrow> Some (JArr [], 2)
             | _ \<Rightarrow> (case parse_elements w (Suc depth) ts of
                       None \<Rightarrow> None
                     | Some (vs, n) \<Rightarrow> Some (JArr vs, Suc n)))
      | _ \<Rightarrow> None)"
| "parse_members w depth [] = None"
| "parse_members w depth (t # ts) =
     (case t of
        TAtom (JStr k) \<Rightarrow>
          (case ts of
             TColon # ts' \<Rightarrow>
               (case parse_value w depth ts' of
                  None \<Rightarrow> None
                | Some (v, n) \<Rightarrow>
                    (case drop n ts' of
                       TRBrace # _ \<Rightarrow> Some ([(k, v)], n + 3)
                     | TComma # _ \<Rightarrow>
                         (case parse_members w depth (drop (Suc n) ts') of
                            None \<Rightarrow> None
                          | Some (pairs, m) \<Rightarrow> Some ((k, v) # pairs, n + 3 + m))
                     | _ \<Rightarrow> None))
           | _ \<Rightarrow> None)
      | _ \<Rightarrow> None)"
| "parse_elements w depth [] = None"
| "parse_elements w depth (t # ts) =
     (case parse_value w depth (t # ts) of
        None \<Rightarrow> None
      | Some (v, n) \<Rightarrow>
          (case drop n (t # ts) of
             TRBracket # _ \<Rightarrow> Some ([v], Suc n)
           | TComma # _ \<Rightarrow>
               (case parse_elements w depth (drop n ts) of
                  None \<Rightarrow> None
                | Some (vs, m) \<Rightarrow> Some (v # vs, Suc n + m))
           | _ \<Rightarrow> None))"

definition json_loads :: "world \<Rightarrow> string \<Rightarrow> json option" where
  "json_loads w s =
     (case tokenize w s of
        None \<Rightarrow> None
      | Some ts \<Rightarrow>
          (case parse_value w 0 ts of
             None \<Rightarrow> None
           | Some (v, n) \<Rightarrow> if n = length ts then Some v else None))"

section \<open>Finding the JSON answer in an oracle's text\<close>

text \<open>
  \<open>re.search(r"{[\s\S]*}", text)\<close>: the leftmost match starts at the first opening
  brace and, the star being greedy, ends at the last closing brace after it.
\<close>

definition brace_span :: "string \<Rightarrow> string option" where
  "brace_span text =
     (let from_open = dropWhile (\<lambda>c. c \<noteq> CHR ''{'') text
      in if from_open = [] then None
         else if CHR ''}'' \<in> set (tl from_open)
         then Some (rev (dropWhile (\<lambda>c. c \<noteq> CHR ''}'') (rev from_open)))
         else None)"

section \<open>Variable resolution (\<open>APITestingAgent._replace_variables\<close>)\<close>

text \<open>
  The pattern \<open>{{([^}]+)}}\<close> tried at the head of the text: two opening braces, the
  longest non-empty run of characters other than a closing brace, two closing
  braces. The result is the captured name; the match covers \<open>length name + 4\<close>
  characters.
\<close>

definition match_placeholder :: "string \<Rightarrow> string option" where
  "match_placeholder text =
     (if take 2 text = ''{{'' then
        (let name = takeWhile (\<lambda>c. c \<noteq> CHR ''}'') (drop 2 text);
             after = dropWhile (\<lambda>c. c \<noteq> CHR ''}'') (drop 2 text)
         in if name \<noteq> [] \<and> take 2 after = ''}}'' then Some name else None)
      else None)"

text \<open>
  \<open>replacer\<close>: \<open>self.env_vars.get(var_name, match.group(0))\<close>. The Environment maps
  names to strings.
\<close>

definition replacer :: "(string \<rightharpoonup> string) \<Rightarrow> string \<Rightarrow> string" where
  "replacer env_vars var_name =
     (case env_vars var_name of
        Some v \<Rightarrow> v
      | None \<Rightarrow> ''{{'' @ var_name @ ''}}'')"

text \<open>
  \<open>re.sub\<close> scans from the left; at a position where the pattern matches it emits the
  replacement and continues after the match, elsewhere it copies one character.
\<close>

fun replace_variables :: "(string \<rightharpoonup> string) \<Rightarrow> string \<Rightarrow> string" where
  "replace_variables env_vars [] = []"
| "replace_variables env_vars (c # cs) =
     (case match_placeholder (c # cs) of
        Some name \<Rightarrow> replacer env_vars name @ replace_variables env_vars (drop (length name + 3) cs)
      | None \<Rightarrow> c # replace_variables env_vars cs)"

section \<open>Collection walker (\<open>_find_all_apis\<close>, \<open>_needs_file_upload\<close>)\<close>

fun search :: "node \<Rightarrow> api_config list" where
  "search NotADict = []"
| "search (Node nm rq item) =
     (case rq of
        Some r \<Rightarrow> [\<lparr>config_name = nm, config_request = r\<rparr>]
      | None \<Rightarrow> [])
     @ concat (map search item)"

definition find_all_apis :: "node \<Rightarrow> api_config list" where
  "find_all_apis collection = search collection"

definition body_of :: "request_data \<Rightarrow> body" where
  "body_of request_data =
     (case req_body request_data of
        Some b \<Rightarrow> b
      | None \<Rightarrow> \<lparr>mode = None, formdata = None\<rparr>)"

definition formdata_of :: "body \<Rightarrow> form_field list" where
  "formdata_of b = (case formdata b of Some fs \<Rightarrow> fs | None \<Rightarrow> [])"

definition needs_file_upload :: "api_config \<Rightarrow> bool" where
  "needs_file_upload api =
     (let b = body_of (config_request api)
      in if mode b = Some ''file'' \<or> mode b = Some ''binary'' then True
         else if mode b = Some ''formdata''
         then list_ex (\<lambda>field. field_type field = Some ''file'') (formdata_of b)
         else False)"

section \<open>Request builder (\<open>_build_request\<close>)\<close>

definition mime_types :: "string \<rightharpoonup> string" where
  "mime_types =
     [''.pdf'' \<mapsto> ''application/pdf'', ''.jpg'' \<mapsto> ''image/jpeg'',
      ''.jpeg'' \<mapsto> ''image/jpeg'', ''.png'' \<mapsto> ''image/png'']"

definition file_mime_type :: "world \<Rightarrow> string \<Rightarrow> string" where
  "file_mime_type w file_path =
     (let fallback = (case mime_types (str_lower (splitext_ext file_path)) of
                        Some m \<Rightarrow> m
                      | None \<Rightarrow> ''application/octet-stream'')
      in case guess_type w file_path of
           Some m \<Rightarrow> if m \<noteq> [] then m else fallback
         | None \<Rightarrow> fallback)"

definition build_headers :: "(string \<rightharpoonup> string) \<Rightarrow> header list \<Rightarrow> (string \<times> string) list" where
  "build_headers env_vars hs =
     foldl (\<lambda>headers h.
              case header_key h of
                Some k \<Rightarrow>
                  if k \<noteq> [] then
                    AList.update k
                      (replace_variables env_vars
                         (case header_value h of Some v \<Rightarrow> v | None \<Rightarrow> []))
                      headers
                  else headers
              | None \<Rightarrow> headers)
           [] hs"

fun build_fields ::
  "world \<Rightarrow> (string \<rightharpoonup> string) \<Rightarrow> string \<Rightarrow> form_field list
     \<Rightarrow> string + (string option \<times> form_part) list" where
  "build_fields w env_vars file_path [] = Inr []"
| "build_fields w env_vars file_path (field # rest) =
     (if field_type field = Some ''file'' then
        (case open_read w file_path of
           Inl e \<Rightarrow> Inl e
         | Inr file_content \<Rightarrow>
             (case build_fields w env_vars file_path rest of
                Inl e \<Rightarrow> Inl e
              | Inr parts \<Rightarrow>
                  Inr ((field_key field,
                        FilePart (basename file_path) file_content (file_mime_type w file_path))
                       # parts)))
      else
        (case build_fields w env_vars file_path rest of
           Inl e \<Rightarrow> Inl e
         | Inr parts \<Rightarrow>
             Inr ((field_key field,
                   TextPart (replace_variables env_vars
                               (case field_value field of Some v \<Rightarrow> v | None \<Rightarrow> [])))
                  # parts)))"

definition build_request ::
  "world \<Rightarrow> (string \<rightharpoonup> string) \<Rightarrow> api_config \<Rightarrow> string
     \<Rightarrow> string + (string \<times> string \<times> (string \<times> string) list \<times> body_data)" where
  "build_request w env_vars api file_path =
     (let request_data = config_request api;
          meth = (case req_method request_data of Some m \<Rightarrow> m | None \<Rightarrow> ''POST'');
          u = replace_variables env_vars
                (case req_url request_data of
                   UrlDict raw \<Rightarrow> (case raw of Some r \<Rightarrow> r | None \<Rightarrow> [])
                 | UrlStr s \<Rightarrow> s
                 | UrlNone \<Rightarrow> ''None'');
          headers = build_headers env_vars
                      (case req_header request_data of Some hs \<Rightarrow> hs | None \<Rightarrow> []);
          b = body_of request_data
      in if mode b = Some ''formdata'' then
           (case build_fields w env_vars file_path (formdata_of b) of
              Inl e \<Rightarrow> Inl e
            | Inr parts \<Rightarrow> Inr (meth, u, headers, \<lparr>files = Some parts, content = None\<rparr>))
         else if mode b = Some ''file'' \<or> mode b = Some ''binary'' then
           (case open_read w file_path of
              Inl e \<Rightarrow> Inl e
            | Inr c \<Rightarrow> Inr (meth, u, headers, \<lparr>files = None, content = Some c\<rparr>))
         else Inr (meth, u, headers, \<lparr>files = None, content = None\<rparr>))"

section \<open>One attempt (\<open>_test_one_api\<close>)\<close>

definition payload_of :: "body_data \<Rightarrow> http_payload" where
  "payload_of body_data =
     (if files body_data \<noteq> None \<and> files body_data \<noteq> Some [] then Files (the (files body_data))
      else if content body_data \<noteq> None \<and> content body_data \<noteq> Some [] then Data (the (content body_data))
      else NoPayload)"

definition name_of :: "api_config \<Rightarrow> string" where
  "name_of api = (case config_name api of Some n \<Rightarrow> n | None \<Rightarrow> ''unnamed'')"

definition failed_attempt :: "api_config \<Rightarrow> string \<Rightarrow> string \<Rightarrow> attempt_result" where
  "failed_attempt api file_path e =
     \<lparr>api_name = name_of api, method_used = None, url = None, file_used = file_path,
      document_type = None, success = False, status_code = None, error_message = e,
      response_headers = None, retry_success = None, correct_document = None\<rparr>"

definition test_one_api ::
  "world \<Rightarrow> (string \<rightharpoonup> string) \<Rightarrow> nat \<Rightarrow> nat \<Rightarrow> api_config \<Rightarrow> string \<Rightarrow> doc_info
     \<Rightarrow> attempt_result" where
  "test_one_api w env_vars k a api file_path info =
     (case build_request w env_vars api file_path of
        Inl e \<Rightarrow> failed_attempt api file_path e
      | Inr (meth, u, headers, body_data) \<Rightarrow>
          (case requests_request w k a
                  \<lparr>http_method = meth, http_url = u, http_headers = headers,
                   http_payload = payload_of body_data\<rparr> of
             Inl e \<Rightarrow> failed_attempt api file_path e
           | Inr r \<Rightarrow>
               (let ok = (resp_status_code r \<in> {200, 201, 204})
                in \<lparr>api_name = name_of api, method_used = Some meth, url = Some u,
                    file_used = file_path,
                    document_type = Some (dict_get info (ustr ''document_type'') JNull),
                    success = ok, status_code = Some (resp_status_code r),
                    error_message = (if \<not> ok then resp_text r else []),
                    response_headers = Some (resp_headers r),
                    retry_success = None, correct_document = None\<rparr>)))"

section \<open>Diagnosis (\<open>_ask_gemini_what_went_wrong\<close>)\<close>

text \<open>From the answer's text to the value returned (source lines 318 to 326).\<close>

definition required_type_of_text :: "world \<Rightarrow> string \<Rightarrow> json" where
  "required_type_of_text w response_text =
     (case brace_span (str_strip response_text) of
        None \<Rightarrow> JNull
      | Some json_match \<Rightarrow>
          (case json_loads w json_match of
             Some (JObj d) \<Rightarrow> dict_get d (ustr ''required_document_type'') JNull
           | _ \<Rightarrow> JNull))"

definition ask_gemini_what_went_wrong :: "world \<Rightarrow> nat \<Rightarrow> attempt_result \<Rightarrow> json" where
  "ask_gemini_what_went_wrong w k error_result =
     (case open_read w ''prompts/normalize_error.md'' of
        Inl e \<Rightarrow> JNull
      | Inr instructions \<Rightarrow>
          (case generate_content w k instructions (status_code error_result)
                  (take 1000 (error_message error_result)) of
             Inl e \<Rightarrow> JNull
           | Inr response_text \<Rightarrow> required_type_of_text w response_text))"

section \<open>Retry-document search (\<open>_find_document_by_type\<close>)\<close>

fun find_in_store :: "world \<Rightarrow> ustring \<Rightarrow> doc_map \<Rightarrow> string + string option" where
  "find_in_store w doc_type_lower [] = Inr None"
| "find_in_store w doc_type_lower ((file_path, info) # rest) =
     (case dict_get info (ustr ''document_type'') (JStr []) of
        JStr t \<Rightarrow>
          (let classified_type = ustr_lower w t
           in if str_in doc_type_lower classified_type \<or> str_in classified_type doc_type_lower
              then Inr (Some file_path)
              else find_in_store w doc_type_lower rest)
      | v \<Rightarrow> Inl (attribute_error v ''lower''))"

definition find_document_by_type :: "world \<Rightarrow> doc_map \<Rightarrow> json \<Rightarrow> string + string option" where
  "find_document_by_type w dm doc_type =
     (case doc_type of
        JStr s \<Rightarrow> find_in_store w (ustr_lower w s) dm
      | v \<Rightarrow> Inl (attribute_error v ''lower''))"

text \<open>
  The match as the spec words it: the lowercased required type and the lowercased
  classified type label are in a substring relation, in either direction.
\<close>

definition matches_required_type :: "world \<Rightarrow> ustring \<Rightarrow> doc_info \<Rightarrow> bool" where
  "matches_required_type w required info =
     (\<exists>label. dict_get info (ustr ''document_type'') (JStr []) = JStr label \<and>
        (sublist (ustr_lower w required) (ustr_lower w label) \<or>
         sublist (ustr_lower w label) (ustr_lower w required)))"

section \<open>Matching engine (\<open>test_apis\<close>)\<close>

text \<open>
  The state of the loop: the \<open>results\<close> list, each entry with the position of its
  endpoint in \<open>upload_apis\<close>; the \<open>used_documents\<close> set; and the calls of
  \<open>_test_one_api\<close> made so far, as (endpoint position, document path).
\<close>

record run_state =
  results :: "(nat \<times> attempt_result) list"
  used_documents :: "string set"
  dispatches :: "(nat \<times> string) list"

definition key_error :: "string \<Rightarrow> string" where
  "key_error k = [CHR 0x27] @ k @ [CHR 0x27]"

text \<open>The body of the loop for the endpoint at position \<open>k\<close>.\<close>

definition test_endpoint ::
  "world \<Rightarrow> (string \<rightharpoonup> string) \<Rightarrow> doc_map \<Rightarrow> nat \<Rightarrow> api_config \<Rightarrow> run_state
     \<Rightarrow> string + run_state" where
  "test_endpoint w env_vars dm k api st =
     (let available_docs = filter (\<lambda>(path, info). path \<notin> used_documents st) dm
      in if available_docs = [] then Inr st
         else
           (let keys = map fst available_docs;
                random_file = keys ! (random_choice w k mod length keys)
            in case map_of available_docs random_file of
                 None \<Rightarrow> Inl (key_error random_file)
               | Some info \<Rightarrow>
                   (let result = test_one_api w env_vars k 0 api random_file info;
                        st1 = st\<lparr>dispatches := dispatches st @ [(k, random_file)]\<rparr>
                    in if success result then
                         Inr (st1\<lparr>used_documents := insert random_file (used_documents st1),
                                  results := results st1 @ [(k, result)]\<rparr>)
                       else
                         (let required_type = ask_gemini_what_went_wrong w k result
                          in if truthy required_type then
                               (case find_document_by_type w dm required_type of
                                  Inl e \<Rightarrow> Inl e
                                | Inr None \<Rightarrow> Inr (st1\<lparr>results := results st1 @ [(k, result)]\<rparr>)
                                | Inr (Some matching_doc) \<Rightarrow>
                                    if matching_doc \<noteq> [] then
                                      (case map_of dm matching_doc of
                                         None \<Rightarrow> Inl (key_error matching_doc)
                                       | Some minfo \<Rightarrow>
                                           (let retry_result =
                                                  test_one_api w env_vars k 1 api matching_doc minfo;
                                                st2 = st1\<lparr>dispatches :=
                                                            dispatches st1 @ [(k, matching_doc)]\<rparr>
                                            in if success retry_result then
                                                 Inr (st2\<lparr>used_documents :=
                                                             insert matching_doc (used_documents st2),
                                                          results := results st2 @
                                                            [(k, result\<lparr>retry_success := Some True,
                                                                       correct_document :=
                                                                         Some matching_doc\<rparr>)]\<rparr>)
                                               else
                                                 Inr (st2\<lparr>results := results st2 @ [(k, result)]\<rparr>)))
                                    else Inr (st1\<lparr>results := results st1 @ [(k, result)]\<rparr>))
                             else Inr (st1\<lparr>results := results st1 @ [(k, result)]\<rparr>)))))"

fun run_endpoints ::
  "world \<Rightarrow> (string \<rightharpoonup> string) \<Rightarrow> doc_map \<Rightarrow> nat \<Rightarrow> api_config list \<Rightarrow> run_state
     \<Rightarrow> string + run_state" where
  "run_endpoints w env_vars dm k [] st = Inr st"
| "run_endpoints w env_vars dm k (api # apis) st =
     (case test_endpoint w env_vars dm k api st of
        Inl e \<Rightarrow> Inl e
      | Inr st' \<Rightarrow> run_endpoints w env_vars dm (Suc k) apis st')"

definition initial_state :: run_state where
  "initial_state = \<lparr>results = [], used_documents = {}, dispatches = []\<rparr>"

definition upload_apis :: "node \<Rightarrow> api_config list" where
  "upload_apis collection = filter needs_file_upload (find_all_apis collection)"

text \<open>The run from the loaded collection on; the final state with its trace.\<close>

definition run_apis ::
  "world \<Rightarrow> (string \<rightharpoonup> string) \<Rightarrow> doc_map \<Rightarrow> node \<Rightarrow> string + run_state" where
  "run_apis w env_vars dm collection =
     run_endpoints w env_vars dm 0 (upload_apis collection) initial_state"

definition test_apis ::
  "world \<Rightarrow> (string \<rightharpoonup> string) \<Rightarrow> doc_map \<Rightarrow> node \<Rightarrow> string + attempt_result list" where
  "test_apis w env_vars dm collection =
     (case run_apis w env_vars dm collection of
        Inl e \<Rightarrow> Inl e
      | Inr st \<Rightarrow> Inr (map snd (results st)))"

section \<open>Report (\<open>run_workflow\<close>, step 3)\<close>

record correct_file =
  fileName :: string
  docType :: json

record failed_file =
  nameOfFile :: string
  failedDocType :: json
  errorMessage :: string

record api_entry =
  apiName :: string
  entry_method :: string
  entry_url :: string
  correctFiles :: "correct_file list"
  failedFiles :: "failed_file list"

definition result_doc_type :: "attempt_result \<Rightarrow> json" where
  "result_doc_type result =
     (case document_type result of Some v \<Rightarrow> v | None \<Rightarrow> JStr (ustr ''unknown''))"

definition report_entry :: "doc_map \<Rightarrow> attempt_result \<Rightarrow> string + api_entry" where
  "report_entry dm result =
     (let entry0 =
            \<lparr>apiName = api_name result,
             entry_method = (case method_used result of Some m \<Rightarrow> m | None \<Rightarrow> ''POST''),
             entry_url = (case url result of Some u \<Rightarrow> u | None \<Rightarrow> []),
             correctFiles = [], failedFiles = []\<rparr>;
          entry1 =
            (if success result then
               entry0\<lparr>correctFiles := correctFiles entry0 @
                  [\<lparr>fileName = basename (file_used result), docType = result_doc_type result\<rparr>]\<rparr>
             else
               entry0\<lparr>failedFiles := failedFiles entry0 @
                  [\<lparr>nameOfFile = basename (file_used result),
                    failedDocType = result_doc_type result,
                    errorMessage = take 200 (error_message result)\<rparr>]\<rparr>)
      in if retry_success result = Some True \<and> correct_document result \<noteq> None
            \<and> correct_document result \<noteq> Some [] then
           (let correct_doc = the (correct_document result)
            in case map_of dm correct_doc of
                 None \<Rightarrow> Inl (key_error correct_doc)
               | Some info \<Rightarrow>
                   Inr (entry1\<lparr>correctFiles := correctFiles entry1 @
                          [\<lparr>fileName = basename correct_doc,
                            docType = dict_get info (ustr ''document_type'')
                                        (JStr (ustr ''unknown''))\<rparr>]\<rparr>))
         else Inr entry1)"

fun generate_report :: "doc_map \<Rightarrow> attempt_result list \<Rightarrow> string + api_entry list" where
  "generate_report dm [] = Inr []"
| "generate_report dm (result # rest) =
     (case report_entry dm result of
        Inl e \<Rightarrow> Inl e
      | Inr entry \<Rightarrow>
          (case generate_report dm rest of
             Inl e \<Rightarrow> Inl e
           | Inr entries \<Rightarrow> Inr (entry # entries)))"

section \<open>Document classification (\<open>DocumentClassifierAgent\<close>)\<close>

text \<open>
  \<open>_ask_gemini_to_classify\<close>: the parsed answer, or \<open>None\<close>. The text matched starts
  with an opening brace, so what \<open>json.loads\<close> returns for it is a dict.
\<close>

definition ask_gemini_to_classify :: "world \<Rightarrow> nat \<Rightarrow> string \<Rightarrow> doc_info option" where
  "ask_gemini_to_classify w j file_path =
     (case open_read w ''prompts/classify_document.md'' of
        Inl e \<Rightarrow> None
      | Inr instructions \<Rightarrow>
          (case classify_content w j instructions file_path of
             Inl e \<Rightarrow> None
           | Inr response_text \<Rightarrow>
               (case brace_span (str_strip response_text) of
                  None \<Rightarrow> None
                | Some json_match \<Rightarrow>
                    (case json_loads w json_match of
                       Some (JObj d) \<Rightarrow> Some d
                     | _ \<Rightarrow> None))))"

text \<open>
  The progress line formats the confidence with \<open>:.0%\<close>. That raises for a value
  that is not a number, and for an integer that does not round to a finite float,
  one of magnitude \<open>2^1024 - 2^970\<close> or more.
\<close>

definition format_percent_error :: "json \<Rightarrow> string option" where
  "format_percent_error v =
     (case v of
        JStr s \<Rightarrow> Some (''Unknown format code '' @ [CHR 0x27, CHR ''%'', CHR 0x27]
                       @ '' for object of type '' @ [CHR 0x27] @ ''str'' @ [CHR 0x27])
      | JNull \<Rightarrow> Some ''unsupported format string passed to NoneType.__format__''
      | JArr xs \<Rightarrow> Some ''unsupported format string passed to list.__format__''
      | JObj d \<Rightarrow> Some ''unsupported format string passed to dict.__format__''
      | JInt n \<Rightarrow> if 2 ^ 1024 - 2 ^ 970 \<le> \<bar>n\<bar>
                  then Some ''int too large to convert to float'' else None
      | _ \<Rightarrow> None)"

definition failed_classification :: doc_info where
  "failed_classification =
     [(ustr ''document_type'', JStr (ustr ''failed'')), (ustr ''confidence'', JFloat 0 (- 1))]"

text \<open>
  The loop over \<open>new_files\<close>; \<open>j\<close> counts the files done, the state is the \<open>results\<close>
  dict and the paths sent to the classification oracle so far. The value is the
  dict, or the exception that ended the loop, with the paths sent to the oracle.
\<close>

fun classify_new ::
  "world \<Rightarrow> nat \<Rightarrow> string list \<Rightarrow> doc_map \<times> string list
     \<Rightarrow> (string + doc_map) \<times> string list" where
  "classify_new w j [] (res, calls) = (Inr res, calls)"
| "classify_new w j (file_path # rest) (res, calls) =
     (case ask_gemini_to_classify w j file_path of
        Some classification \<Rightarrow>
          if classification \<noteq> [] then
            (case format_percent_error
                    (dict_get classification (ustr ''confidence'') (JInt 0)) of
               Some e \<Rightarrow> (Inl e, calls @ [file_path])
             | None \<Rightarrow>
                 classify_new w (Suc j) rest
                   (AList.update file_path classification res, calls @ [file_path]))
          else
            classify_new w (Suc j) rest
              (AList.update file_path failed_classification res, calls @ [file_path])
      | None \<Rightarrow>
          classify_new w (Suc j) rest
            (AList.update file_path failed_classification res, calls @ [file_path]))"

text \<open>\<open>os.path.dirname\<close> (POSIX).\<close>

definition dirname :: "string \<Rightarrow> string" where
  "dirname p =
     (let head = rev (dropWhile (\<lambda>c. c \<noteq> CHR ''/'') (rev p))
      in if head \<noteq> [] \<and> (\<exists>c \<in> set head. c \<noteq> CHR ''/'')
         then rev (dropWhile (\<lambda>c. c = CHR ''/'') (rev head))
         else head)"

text \<open>
  \<open>os.makedirs(name, exist_ok=True)\<close>: the empty name raises \<open>FileNotFoundError\<close>,
  whatever the file system holds.
\<close>

definition os_makedirs :: "world \<Rightarrow> string \<Rightarrow> string option" where
  "os_makedirs w name =
     (if name = [] then Some (''[Errno 2] No such file or directory: '' @ [CHR 0x27, CHR 0x27])
      else makedirs w name)"

text \<open>Step 1: the previous results, when a cache file is named and exists.\<close>

definition load_results :: "world \<Rightarrow> string option \<Rightarrow> string + doc_map" where
  "load_results w cache_file =
     (case cache_file of
        None \<Rightarrow> Inr []
      | Some path \<Rightarrow> if path \<noteq> [] \<and> path_exists w path then read_json w path else Inr [])"

text \<open>Step 4: the results are saved when a cache file is named.\<close>

definition save_results :: "world \<Rightarrow> string option \<Rightarrow> doc_map \<Rightarrow> string option" where
  "save_results w cache_file res =
     (case cache_file of
        None \<Rightarrow> None
      | Some path \<Rightarrow>
          if path \<noteq> [] then
            (case os_makedirs w (dirname path) of
               Some e \<Rightarrow> Some e
             | None \<Rightarrow> write_json w path res)
          else None)"

text \<open>
  \<open>classify_documents\<close>: \<open>all_files\<close> is what the walk over \<open>docs_dir\<close> finds. The
  value is the returned dict, or the exception that leaves the function, with the
  paths sent to the classification oracle.
\<close>

definition classify_documents ::
  "world \<Rightarrow> string list \<Rightarrow> string option \<Rightarrow> (string + doc_map) \<times> string list" where
  "classify_documents w all_files cache_file =
     (case load_results w cache_file of
        Inl e \<Rightarrow> (Inl e, [])
      | Inr res \<Rightarrow>
          (let new_files = filter (\<lambda>f. f \<notin> set (map fst res)) all_files
           in case classify_new w 0 new_files (res, []) of
                (Inl e, calls) \<Rightarrow> (Inl e, calls)
              | (Inr res', calls) \<Rightarrow>
                  (case save_results w cache_file res' of
                     Some e \<Rightarrow> (Inl e, calls)
                   | None \<Rightarrow> (Inr res', calls))))"

section \<open>Scenarios\<close>

text \<open>
  The retry scenario of the spec: an endpoint with one form file field, a document
  classified \<open>invoice\<close> and one classified \<open>passport_scan\<close>, a server that answers
  200 to the passport scan and 422 to anything else, and a diagnosis oracle whose
  answer wraps \<open>{"required_document_type": "passport"}\<close> in free text. No cache
  file exists, directories can be made and files written; the interpreter has its
  default limits.
\<close>

definition upload_request :: request_data where
  "upload_request =
     \<lparr>req_method = None, req_url = UrlDict (Some ''{{base}}/upload''),
      req_header = None,
      req_body = Some \<lparr>mode = Some ''formdata'',
                       formdata = Some [\<lparr>field_key = Some ''file'', field_type = Some ''file'',
                                         field_value = None\<rparr>]\<rparr>\<rparr>"

definition upload_api :: api_config where
  "upload_api = \<lparr>config_name = Some ''Upload ID'', config_request = upload_request\<rparr>"

definition base_env :: "string \<rightharpoonup> string" where
  "base_env = [''base'' \<mapsto> ''http://x'']"

definition sent_file :: "http_request \<Rightarrow> string" where
  "sent_file req =
     (case http_payload req of
        Files ((_, FilePart nm _ _) # _) \<Rightarrow> nm
      | _ \<Rightarrow> [])"

definition unprocessable :: response where
  "unprocessable =
     \<lparr>resp_status_code = 422, resp_text = ''passport required'', resp_headers = []\<rparr>"

definition passport_world :: world where
  "passport_world =
     \<lparr>random_choice = (\<lambda>k. 0),
      open_read = (\<lambda>path. Inr ''data''),
      guess_type = (\<lambda>path. None),
      requests_request = (\<lambda>k a req.
         if sent_file req = ''passport_scan.pdf''
         then Inr \<lparr>resp_status_code = 200, resp_text = ''ok'', resp_headers = []\<rparr>
         else Inr unprocessable),
      generate_content = (\<lambda>k instructions status body.
         Inr ''Answer: {\"required_document_type\": \"passport\"}''),
      classify_content = (\<lambda>j instructions path. Inl ''offline''),
      path_exists = (\<lambda>path. False),
      read_json = (\<lambda>path. Inl ''[Errno 2] No such file or directory''),
      makedirs = (\<lambda>name. None),
      write_json = (\<lambda>path d. None),
      unicode_lower = (\<lambda>s. s),
      int_max_str_digits = 4300,
      json_depth_limit = 1000\<rparr>"

text \<open>The same world with a server that refuses every upload.\<close>

definition rejecting_world :: world where
  "rejecting_world = passport_world\<lparr>requests_request := (\<lambda>k a req. Inr unprocessable)\<rparr>"

text \<open>The same world with a diagnosis oracle that answers without any JSON.\<close>

definition undecided_world :: world where
  "undecided_world =
     passport_world\<lparr>generate_content := (\<lambda>k instructions status body. Inr ''I cannot tell.'')\<rparr>"

text \<open>The same world with a classification oracle that answers every file alike.\<close>

definition classifying_world :: world where
  "classifying_world =
     passport_world\<lparr>classify_content := (\<lambda>j instructions path.
        Inr ''{\"document_type\": \"invoice\", \"confidence\": 0.9}'')\<rparr>"

definition invoice_classification :: doc_info where
  "invoice_classification =
     [(ustr ''document_type'', JStr (ustr ''invoice'')), (ustr ''confidence'', JFloat 9 (- 1))]"

definition invoice_first :: doc_map where
  "invoice_first =
     [(''docs/invoice.pdf'', [(ustr ''document_type'', JStr (ustr ''invoice''))]),
      (''docs/passport_scan.pdf'', [(ustr ''document_type'', JStr (ustr ''passport_scan''))])]"

definition passport_first :: doc_map where
  "passport_first =
     [(''docs/passport_scan.pdf'', [(ustr ''document_type'', JStr (ustr ''passport_scan''))]),
      (''docs/invoice.pdf'', [(ustr ''document_type'', JStr (ustr ''invoice''))])]"

text \<open>
  Worlds for the classifier: one where the cache file exists and holds the
  \<open>invoice_first\<close> store, and the same with a cache file that cannot be written.
\<close>

definition warm_world :: world where
  "warm_world =
     classifying_world\<lparr>path_exists := (\<lambda>path. True), read_json := (\<lambda>path. Inr invoice_first)\<rparr>"

definition read_only_world :: world where
  "read_only_world =
     warm_world\<lparr>write_json := (\<lambda>path d. Some ''[Errno 13] Permission denied'')\<rparr>"

definition one_endpoint :: node where
  "one_endpoint = Node None None [Node (Some ''Upload ID'') (Some upload_request) []]"

definition two_endpoints :: node where
  "two_endpoints =
     Node None None
       [Node (Some ''Upload ID'') (Some upload_request) [],
        Node (Some ''Verify ID'') (Some upload_request) []]"

section \<open>Properties\<close>

subsection \<open>Substring test and variable resolution\<close>

lemma str_in_iff_sublist: "str_in xs ys \<longleftrightarrow> sublist xs ys"
proof (induction ys)
  case Nil
  show ?case by auto
next
  case (Cons y ys)
  have "take (length xs) (y # ys) = xs \<longleftrightarrow> prefix xs (y # ys)"
    by (metis append_eq_conv_conj prefix_def)
  with Cons show ?case
    by (simp add: sublist_Cons_right)
qed

lemma match_placeholder_here:
  assumes "name \<noteq> []" and "CHR ''}'' \<notin> set name"
  shows "match_placeholder (''{{'' @ name @ ''}}'' @ rest) = Some name"
proof -
  have t: "takeWhile (\<lambda>c. c \<noteq> CHR ''}'') (name @ CHR ''}'' # CHR ''}'' # rest) = name"
    using assms(2) by (induction name) auto
  have d: "dropWhile (\<lambda>c. c \<noteq> CHR ''}'') (name @ CHR ''}'' # CHR ''}'' # rest) =
             CHR ''}'' # CHR ''}'' # rest"
    using assms(2) by (induction name) auto
  show ?thesis
    using assms(1) by (simp add: match_placeholder_def t d)
qed

lemma match_placeholder_none:
  assumes "\<not> sublist ''{{'' ((c # pre) @ ''{'')"
  shows "match_placeholder (c # pre @ ''{{'' @ x) = None"
proof -
  have "take 2 (c # pre @ ''{{'' @ x) \<noteq> ''{{''"
  proof
    assume h: "take 2 (c # pre @ ''{{'' @ x) = ''{{''"
    have "prefix ''{{'' ((c # pre) @ ''{'')"
      using h by (cases pre) (auto simp: numeral_2_eq_2)
    then show False using assms by (meson prefix_imp_sublist)
  qed
  then show ?thesis unfolding match_placeholder_def by (rule if_not_P)
qed

lemma match_placeholder_shape:
  assumes "match_placeholder s = Some name"
  shows "name \<noteq> [] \<and> CHR ''}'' \<notin> set name \<and> (\<exists>rest. s = ''{{'' @ name @ ''}}'' @ rest)"
proof -
  define body where "body = drop 2 s"
  define after where "after = dropWhile (\<lambda>c. c \<noteq> CHR ''}'') body"
  from assms have o: "take 2 s = ''{{''"
    and nm: "name = takeWhile (\<lambda>c. c \<noteq> CHR ''}'') body"
    and ne: "name \<noteq> []"
    and cl: "take 2 after = ''}}''"
    unfolding match_placeholder_def Let_def body_def after_def
    by (auto split: if_splits)
  have "s = take 2 s @ body"
    unfolding body_def by simp
  moreover have "body = name @ after"
    unfolding nm after_def by simp
  moreover have "after = take 2 after @ drop 2 after"
    by simp
  ultimately have "s = ''{{'' @ name @ ''}}'' @ drop 2 after"
    using o cl by metis
  moreover have "CHR ''}'' \<notin> set name"
    unfolding nm using set_takeWhileD by fastforce
  ultimately show ?thesis using ne by blast
qed

lemma replace_variables_first:
  assumes "\<not> sublist ''{{'' (pre @ ''{'')" and "name \<noteq> []" and "CHR ''}'' \<notin> set name"
  shows "replace_variables env (pre @ ''{{'' @ name @ ''}}'' @ rest) =
           pre @ replacer env name @ replace_variables env rest"
  using assms(1)
proof (induction pre)
  case Nil
  have "match_placeholder (CHR ''{'' # CHR ''{'' # name @ ''}}'' @ rest) = Some name"
    using match_placeholder_here[OF assms(2,3), of rest] by simp
  moreover have "drop (length name + 3) (CHR ''{'' # name @ CHR ''}'' # CHR ''}'' # rest) = rest"
    by (simp add: numeral_3_eq_3)
  ultimately show ?case by simp
next
  case (Cons c pre)
  have n: "match_placeholder (c # pre @ ''{{'' @ name @ ''}}'' @ rest) = None"
    using match_placeholder_none[OF Cons.prems] .
  have "\<not> sublist ''{{'' (pre @ ''{'')"
    using Cons.prems by (simp add: sublist_Cons_right)
  with Cons.IH n show ?case by simp
qed

subsection \<open>Paths through the loop body\<close>

lemma map_of_nth_key:
  assumes "i < length xs"
  shows "map_of xs (map fst xs ! i) \<noteq> None"
proof -
  have "map fst xs ! i \<in> fst ` set xs"
    using assms by (metis length_map list.set_map nth_mem)
  then show ?thesis by (simp add: map_of_eq_None_iff)
qed

lemma test_endpoint_skip:
  "filter (\<lambda>(path, info). path \<notin> used_documents st) dm = [] \<Longrightarrow>
   test_endpoint w env dm k api st = Inr st"
  by (simp add: test_endpoint_def)

lemma test_endpoint_success:
  assumes "available = filter (\<lambda>(path, info). path \<notin> used_documents st) dm"
    and "available \<noteq> []"
    and "random_file = map fst available ! (random_choice w k mod length available)"
    and "map_of available random_file = Some info"
    and "result = test_one_api w env k 0 api random_file info"
    and "success result"
  shows "test_endpoint w env dm k api st =
           Inr \<lparr>results = results st @ [(k, result)],
                used_documents = insert random_file (used_documents st),
                dispatches = dispatches st @ [(k, random_file)]\<rparr>"
  using assms(2,4,6) unfolding test_endpoint_def assms(1,3,5)
  by (simp add: Let_def)

lemma test_endpoint_no_retry:
  assumes "available = filter (\<lambda>(path, info). path \<notin> used_documents st) dm"
    and "available \<noteq> []"
    and "random_file = map fst available ! (random_choice w k mod length available)"
    and "map_of available random_file = Some info"
    and "result = test_one_api w env k 0 api random_file info"
    and "\<not> success result"
    and "\<not> truthy (ask_gemini_what_went_wrong w k result)
         \<or> find_document_by_type w dm (ask_gemini_what_went_wrong w k result) = Inr None
         \<or> find_document_by_type w dm (ask_gemini_what_went_wrong w k result) = Inr (Some [])"
  shows "test_endpoint w env dm k api st =
           Inr \<lparr>results = results st @ [(k, result)],
                used_documents = used_documents st,
                dispatches = dispatches st @ [(k, random_file)]\<rparr>"
  using assms(2,4,6,7) unfolding test_endpoint_def assms(1,3,5)
  by (auto simp add: Let_def)

lemma test_endpoint_retry:
  assumes "available = filter (\<lambda>(path, info). path \<notin> used_documents st) dm"
    and "available \<noteq> []"
    and "random_file = map fst available ! (random_choice w k mod length available)"
    and "map_of available random_file = Some info"
    and "result = test_one_api w env k 0 api random_file info"
    and "\<not> success result"
    and "truthy (ask_gemini_what_went_wrong w k result)"
    and "find_document_by_type w dm (ask_gemini_what_went_wrong w k result) = Inr (Some matching_doc)"
    and "matching_doc \<noteq> []"
    and "map_of dm matching_doc = Some minfo"
    and "retry_result = test_one_api w env k 1 api matching_doc minfo"
  shows "test_endpoint w env dm k api st =
           Inr \<lparr>results = results st @
                   [(k, if success retry_result
                        then result\<lparr>retry_success := Some True, correct_document := Some matching_doc\<rparr>
                        else result)],
                used_documents = (if success retry_result
                                  then insert matching_doc (used_documents st)
                                  else used_documents st),
                dispatches = dispatches st @ [(k, random_file), (k, matching_doc)]\<rparr>"
  using assms(2,4,6,7,8,9,10) unfolding test_endpoint_def assms(1,3,5,11)
  by (simp add: Let_def)

subsection \<open>What one endpoint and a whole run add to the trace\<close>

lemma test_endpoint_trace:
  assumes "test_endpoint w env dm k api st = Inr st'"
  shows "\<exists>ds rs. dispatches st' = dispatches st @ ds \<and> results st' = results st @ rs \<and>
           length ds \<le> 2 \<and> length rs \<le> 1 \<and>
           (\<forall>x \<in> set ds. fst x = k) \<and> (\<forall>x \<in> set rs. fst x = k)"
  using assms unfolding test_endpoint_def Let_def
  by (auto split: if_splits option.splits sum.splits)

lemma run_endpoints_trace:
  "run_endpoints w env dm k apis st = Inr st' \<Longrightarrow>
   \<exists>ds rs. dispatches st' = dispatches st @ ds \<and> results st' = results st @ rs \<and>
      (\<forall>j. length (filter (\<lambda>x. fst x = j) ds) \<le> 2 \<and> length (filter (\<lambda>x. fst x = j) rs) \<le> 1) \<and>
      (\<forall>x \<in> set ds. k \<le> fst x) \<and> (\<forall>x \<in> set rs. k \<le> fst x)"
proof (induction apis arbitrary: k st)
  case Nil
  then show ?case by simp
next
  case (Cons api apis)
  from Cons.prems obtain st1 where
    s1: "test_endpoint w env dm k api st = Inr st1" and
    s2: "run_endpoints w env dm (Suc k) apis st1 = Inr st'"
    by (auto split: sum.splits)
  from test_endpoint_trace[OF s1] obtain ds1 rs1 where
    a: "dispatches st1 = dispatches st @ ds1" "results st1 = results st @ rs1"
       "length ds1 \<le> 2" "length rs1 \<le> 1"
       "\<forall>x \<in> set ds1. fst x = k" "\<forall>x \<in> set rs1. fst x = k"
    by blast
  from Cons.IH[OF s2] obtain ds2 rs2 where
    b: "dispatches st' = dispatches st1 @ ds2" "results st' = results st1 @ rs2"
       "\<forall>j. length (filter (\<lambda>x. fst x = j) ds2) \<le> 2 \<and> length (filter (\<lambda>x. fst x = j) rs2) \<le> 1"
       "\<forall>x \<in> set ds2. Suc k \<le> fst x" "\<forall>x \<in> set rs2. Suc k \<le> fst x"
    by blast
  have c: "length (filter (\<lambda>x. fst x = j) (ds1 @ ds2)) \<le> 2" for j
  proof (cases "j = k")
    case True
    have "filter (\<lambda>x. fst x = j) ds2 = []"
      using b(4) True by (auto simp: filter_empty_conv)
    moreover have "length (filter (\<lambda>x. fst x = j) ds1) \<le> 2"
      by (rule le_trans[OF length_filter_le a(3)])
    ultimately show ?thesis by simp
  next
    case False
    have "filter (\<lambda>x. fst x = j) ds1 = []"
      using a(5) False by (auto simp: filter_empty_conv)
    then show ?thesis using b(3) by simp
  qed
  have d: "length (filter (\<lambda>x. fst x = j) (rs1 @ rs2)) \<le> 1" for j
  proof (cases "j = k")
    case True
    have "filter (\<lambda>x. fst x = j) rs2 = []"
      using b(5) True by (auto simp: filter_empty_conv)
    moreover have "length (filter (\<lambda>x. fst x = j) rs1) \<le> 1"
      by (rule le_trans[OF length_filter_le a(4)])
    ultimately show ?thesis by simp
  next
    case False
    have "filter (\<lambda>x. fst x = j) rs1 = []"
      using a(6) False by (auto simp: filter_empty_conv)
    then show ?thesis using b(3) by simp
  qed
  have e: "\<forall>x \<in> set (ds1 @ ds2). k \<le> fst x" "\<forall>x \<in> set (rs1 @ rs2). k \<le> fst x"
    using a(5,6) b(4,5) by fastforce+
  have "dispatches st' = dispatches st @ (ds1 @ ds2)" "results st' = results st @ (rs1 @ rs2)"
    using a(1,2) b(1,2) by simp_all
  with c d e show ?case by blast
qed

subsection \<open>Retry-document search\<close>

lemma find_in_store_find:
  assumes "\<forall>(p, info) \<in> set dm. \<exists>label. dict_get info (ustr ''document_type'') (JStr []) = JStr label"
  shows "find_in_store w (ustr_lower w required) dm =
           Inr (map_option fst (find (\<lambda>(p, info). matches_required_type w required info) dm))"
  using assms
proof (induction dm)
  case Nil
  show ?case by simp
next
  case (Cons x dm)
  obtain p info where x: "x = (p, info)" by (cases x)
  from Cons.prems x obtain label where l: "dict_get info (ustr ''document_type'') (JStr []) = JStr label"
    by auto
  have ih: "find_in_store w (ustr_lower w required) dm =
           Inr (map_option fst (find (\<lambda>(p, info). matches_required_type w required info) dm))"
    using Cons by simp
  show ?case
    unfolding x using l ih
    by (simp add: matches_required_type_def str_in_iff_sublist Let_def)
qed

subsection \<open>Classification\<close>

lemma classify_new_keys:
  "classify_new w j fs (res, calls) = (Inr res', calls') \<Longrightarrow>
     fst ` set res \<union> set fs \<subseteq> fst ` set res'"
proof (induction fs arbitrary: j res calls)
  case Nil
  then show ?case by simp
next
  case (Cons f fs)
  from Cons.prems obtain c where
    r: "classify_new w (Suc j) fs (AList.update f c res, calls @ [f]) = (Inr res', calls')"
    by (auto split: option.splits if_splits)
  from Cons.IH[OF r] have "fst ` set (AList.update f c res) \<union> set fs \<subseteq> fst ` set res'" .
  moreover have "set (map fst (AList.update f c res)) = insert f (set (map fst res))"
    by (auto simp: update_keys)
  ultimately show ?case by auto
qed

lemma classify_documents_warm:
  assumes "cache_file \<noteq> []" and "path_exists w cache_file"
    and "read_json w cache_file = Inr cache" and "set all_files \<subseteq> fst ` set cache"
  shows "classify_documents w all_files (Some cache_file) =
           (case save_results w (Some cache_file) cache of
              Some e \<Rightarrow> (Inl e, [])
            | None \<Rightarrow> (Inr cache, []))"
proof -
  have l: "load_results w (Some cache_file) = Inr cache"
    using assms(1,2,3) by (simp add: load_results_def)
  have n: "filter (\<lambda>f. f \<notin> fst ` set cache) all_files = []"
    using assms(4) by (auto simp: filter_empty_conv)
  show ?thesis
    by (simp add: classify_documents_def l n split: option.splits)
qed

lemma classify_documents_keys:
  assumes "classify_documents w all_files cache_file = (Inr store, calls)"
  shows "set all_files \<subseteq> fst ` set store"
proof -
  from assms obtain res where l: "load_results w cache_file = Inr res"
    unfolding classify_documents_def by (auto split: sum.splits)
  define new_files where "new_files = filter (\<lambda>f. f \<notin> set (map fst res)) all_files"
  from assms have "classify_new w 0 new_files (res, []) = (Inr store, calls)"
    unfolding classify_documents_def l Let_def new_files_def
    by (auto split: sum.splits prod.splits option.splits)
  from classify_new_keys[OF this]
  have "fst ` set res \<union> set new_files \<subseteq> fst ` set store" .
  moreover have "set all_files \<subseteq> fst ` set res \<union> set new_files"
    unfolding new_files_def by auto
  ultimately show ?thesis by blast
qed

subsection \<open>The brace span of an answer\<close>

lemma dropWhile_keep:
  "\<not> P x \<Longrightarrow> dropWhile P (xs @ x # r) = dropWhile P xs @ x # r"
  by (induction xs) auto

lemma dropWhile_until:
  "x \<notin> set xs \<Longrightarrow> dropWhile (\<lambda>c. c \<noteq> x) (xs @ x # r) = x # r"
  by (induction xs) auto

lemma json_loads_brace_dict:
  assumes "json_loads w (CHR ''{'' # s) = Some v"
  shows "\<exists>d. v = JObj d"
proof -
  from assms obtain ts where t: "tokenize w (CHR ''{'' # s) = Some ts"
    and p: "parse_value w 0 ts \<noteq> None" "fst (the (parse_value w 0 ts)) = v"
    by (auto simp: json_loads_def split: option.splits if_splits)
  from t obtain ts' where ts: "ts = TLBrace # ts'"
    by (auto simp: is_json_space_def emit_def)
  show ?thesis
    using p unfolding ts
    by (auto split: list.splits token.splits option.splits if_splits)
qed

lemma brace_span_found:
  assumes "CHR ''{'' \<notin> set pre" and "CHR ''}'' \<notin> set post"
  shows "brace_span (pre @ CHR ''{'' # mid @ CHR ''}'' # post) = Some (CHR ''{'' # mid @ ''}'')"
proof -
  have a: "dropWhile (\<lambda>c. c \<noteq> CHR ''{'') (pre @ CHR ''{'' # mid @ CHR ''}'' # post) =
             CHR ''{'' # mid @ CHR ''}'' # post"
    using assms(1) by (rule dropWhile_until)
  have b: "dropWhile (\<lambda>c. c \<noteq> CHR ''}'') (rev post @ CHR ''}'' # rev mid @ ''{'') =
             CHR ''}'' # rev mid @ ''{''"
    using assms(2) dropWhile_until[of "CHR ''}''" "rev post" "rev mid @ ''{''"] by simp
  show ?thesis
    unfolding brace_span_def a Let_def using b by simp
qed

lemma brace_span_shape:
  assumes "brace_span text = Some m"
  shows "\<exists>pre mid post. text = pre @ CHR ''{'' # mid @ CHR ''}'' # post"
proof -
  define from_open where "from_open = dropWhile (\<lambda>c. c \<noteq> CHR ''{'') text"
  from assms have ne: "from_open \<noteq> []" and cl: "CHR ''}'' \<in> set (tl from_open)"
    unfolding brace_span_def Let_def from_open_def by (auto split: if_splits)
  from ne have "hd from_open = CHR ''{''"
    unfolding from_open_def using hd_dropWhile[of "\<lambda>c. c \<noteq> CHR ''{''" "text"] by simp
  with ne have f: "from_open = CHR ''{'' # tl from_open"
    by (cases from_open) auto
  from split_list[OF cl] obtain mid post where t: "tl from_open = mid @ CHR ''}'' # post"
    by blast
  have "text = takeWhile (\<lambda>c. c \<noteq> CHR ''{'') text @ from_open"
    unfolding from_open_def by simp
  also have "from_open = CHR ''{'' # mid @ CHR ''}'' # post"
    using f t by simp
  finally show ?thesis by blast
qed

lemma str_strip_span:
  "str_strip (pre @ CHR ''{'' # mid @ CHR ''}'' # post) =
     dropWhile is_space pre @ CHR ''{'' # mid @ CHR ''}'' # rev (dropWhile is_space (rev post))"
proof -
  have o: "\<not> is_space (CHR ''{'')" and c: "\<not> is_space (CHR ''}'')"
    by (simp_all add: is_space_def)
  have a: "dropWhile is_space (pre @ CHR ''{'' # r) = dropWhile is_space pre @ CHR ''{'' # r" for r
    using o by (rule dropWhile_keep)
  have b: "dropWhile is_space (rev post @ CHR ''}'' # r) = dropWhile is_space (rev post) @ CHR ''}'' # r" for r
    using c by (rule dropWhile_keep)
  have "rev (CHR ''{'' # mid @ CHR ''}'' # post) = rev post @ CHR ''}'' # (rev mid @ ''{'')"
    by simp
  then show ?thesis
    unfolding str_strip_def a by (simp add: b)
qed

lemma str_strip_inside: "\<exists>a b. s = a @ str_strip s @ b"
proof -
  define t where "t = dropWhile is_space s"
  have "s = takeWhile is_space s @ t" by (simp add: t_def)
  moreover have "rev t = takeWhile is_space (rev t) @ dropWhile is_space (rev t)" by simp
  then have "rev (rev t) = rev (takeWhile is_space (rev t) @ dropWhile is_space (rev t))"
    by simp
  then have "t = rev (dropWhile is_space (rev t)) @ rev (takeWhile is_space (rev t))"
    by (simp only: rev_append rev_rev_ident)
  ultimately have "s = takeWhile is_space s @ str_strip s @ rev (takeWhile is_space (rev t))"
    unfolding str_strip_def t_def by simp
  then show ?thesis by blast
qed

lemma required_type_of_span:
  assumes "CHR ''{'' \<notin> set pre" and "CHR ''}'' \<notin> set post"
  shows "required_type_of_text w (pre @ ''{'' @ mid @ ''}'' @ post) =
           (case json_loads w (''{'' @ mid @ ''}'') of
              Some (JObj d) \<Rightarrow> dict_get d (ustr ''required_document_type'') JNull
            | _ \<Rightarrow> JNull)"
proof -
  have "CHR ''{'' \<notin> set (dropWhile is_space pre)"
    using assms(1) set_dropWhileD[of "CHR ''{''" is_space pre] by auto
  moreover have "CHR ''}'' \<notin> set (rev (dropWhile is_space (rev post)))"
    using assms(2) set_dropWhileD[of "CHR ''}''" is_space "rev post"] by auto
  ultimately have "brace_span (str_strip (pre @ CHR ''{'' # mid @ CHR ''}'' # post)) =
      Some (CHR ''{'' # mid @ ''}'')"
    unfolding str_strip_span by (rule brace_span_found)
  then show ?thesis by (simp add: required_type_of_text_def)
qed

lemma required_type_no_span:
  assumes "\<forall>pre mid post. text \<noteq> pre @ ''{'' @ mid @ ''}'' @ post"
  shows "required_type_of_text w text = JNull"
proof -
  have "brace_span (str_strip text) = None"
  proof (rule ccontr)
    assume "brace_span (str_strip text) \<noteq> None"
    then obtain m where "brace_span (str_strip text) = Some m" by auto
    from brace_span_shape[OF this] obtain pre mid post where
      s: "str_strip text = pre @ CHR ''{'' # mid @ CHR ''}'' # post" by blast
    obtain a b where "text = a @ str_strip text @ b" using str_strip_inside by blast
    with s have "text = (a @ pre) @ ''{'' @ mid @ ''}'' @ (post @ b)" by simp
    with assms show False by blast
  qed
  then show ?thesis by (simp add: required_type_of_text_def)
qed

subsection \<open>The retry path\<close>

lemma find_in_store_key:
  "find_in_store w t dm = Inr (Some p) \<Longrightarrow> map_of dm p \<noteq> None"
proof (induction dm)
  case Nil
  then show ?case by simp
next
  case (Cons x dm)
  obtain q info where x: "x = (q, info)" by (cases x)
  show ?case
    using Cons unfolding x
    by (auto simp: Let_def split: json.splits if_splits)
qed

lemma find_document_by_type_key:
  "find_document_by_type w dm t = Inr (Some p) \<Longrightarrow> map_of dm p \<noteq> None"
  unfolding find_document_by_type_def
  by (cases t) (auto dest: find_in_store_key)

lemma test_one_api_unannotated:
  "retry_success (test_one_api w env k a api fp info) = None \<and>
   correct_document (test_one_api w env k a api fp info) = None"
  unfolding test_one_api_def failed_attempt_def Let_def
  by (auto split: sum.splits prod.splits)

lemma first_attempt_info:
  assumes "available \<noteq> []"
  shows "map_of available (map fst available ! (n mod length available)) =
           Some (the (map_of available (map fst available ! (n mod length available))))"
proof -
  have "n mod length available < length available"
    using assms by simp
  from map_of_nth_key[OF this] show ?thesis by simp
qed

section \<open>Claims\<close>

text \<open>
  C1. No double use: a successful attempt, first or retry, never uses a document
  that a successful attempt of an earlier endpoint has consumed. The run below
  breaks it: the first endpoint succeeds with the passport scan, the second fails
  with the invoice and its retry succeeds with the same passport scan, which was
  in \<open>used_documents\<close> when \<open>_find_document_by_type\<close> selected it.
\<close>

theorem consumed_document_reused_by_retry:
  "run_apis passport_world base_env passport_first two_endpoints =
     Inr \<lparr>results =
            [(0, \<lparr>api_name = ''Upload ID'', method_used = Some ''POST'',
                  url = Some ''http://x/upload'', file_used = ''docs/passport_scan.pdf'',
                  document_type = Some (JStr (ustr ''passport_scan'')), success = True,
                  status_code = Some 200, error_message = [],
                  response_headers = Some [], retry_success = None,
                  correct_document = None\<rparr>),
             (1, \<lparr>api_name = ''Verify ID'', method_used = Some ''POST'',
                  url = Some ''http://x/upload'', file_used = ''docs/invoice.pdf'',
                  document_type = Some (JStr (ustr ''invoice'')), success = False,
                  status_code = Some 422, error_message = ''passport required'',
                  response_headers = Some [], retry_success = Some True,
                  correct_document = Some ''docs/passport_scan.pdf''\<rparr>)],
          used_documents = {''docs/passport_scan.pdf''},
          dispatches = [(0, ''docs/passport_scan.pdf''), (1, ''docs/invoice.pdf''),
                        (1, ''docs/passport_scan.pdf'')]\<rparr>"
  by code_simp

text \<open>
  C2, as stated, fails on the spec's own retry scenario: the run returns one
  Attempt Result, not two.
\<close>

theorem retry_scenario_one_result:
  "test_apis passport_world base_env invoice_first one_endpoint =
     Inr [\<lparr>api_name = ''Upload ID'', method_used = Some ''POST'',
           url = Some ''http://x/upload'', file_used = ''docs/invoice.pdf'',
           document_type = Some (JStr (ustr ''invoice'')), success = False,
           status_code = Some 422, error_message = ''passport required'',
           response_headers = Some [], retry_success = Some True,
           correct_document = Some ''docs/passport_scan.pdf''\<rparr>]"
  by code_simp

text \<open>
  C2, amended. When the first attempt fails, the diagnosis returns a required
  type and the retry-document search returns a document, the engine calls
  \<open>_test_one_api\<close> once more, with that document, and records a single Attempt
  Result for the endpoint: the first one, which on retry success carries
  \<open>retry_success = True\<close> and \<open>correct_document\<close>, the retry document's path. On retry
  success that path is added to the Usage Set; otherwise the Usage Set is
  unchanged.
\<close>

theorem retry_once_annotates_result:
  assumes "available = filter (\<lambda>(path, info). path \<notin> used_documents st) dm"
    and "available \<noteq> []"
    and "random_file = map fst available ! (random_choice w k mod length available)"
    and "result = test_one_api w env k 0 api random_file (the (map_of available random_file))"
    and "\<not> success result"
    and "truthy (ask_gemini_what_went_wrong w k result)"
    and "find_document_by_type w dm (ask_gemini_what_went_wrong w k result) =
           Inr (Some matching_doc)"
    and "matching_doc \<noteq> []"
    and "retry_result = test_one_api w env k 1 api matching_doc (the (map_of dm matching_doc))"
  shows "test_endpoint w env dm k api st =
           Inr \<lparr>results = results st @
                   [(k, if success retry_result
                        then result\<lparr>retry_success := Some True,
                                    correct_document := Some matching_doc\<rparr>
                        else result)],
                used_documents = (if success retry_result
                                  then insert matching_doc (used_documents st)
                                  else used_documents st),
                dispatches = dispatches st @ [(k, random_file), (k, matching_doc)]\<rparr>"
proof -
  have i: "map_of available random_file = Some (the (map_of available random_file))"
    unfolding assms(3) using assms(2) by (rule first_attempt_info)
  have m: "map_of dm matching_doc = Some (the (map_of dm matching_doc))"
    using find_document_by_type_key[OF assms(7)] by simp
  show ?thesis
    by (rule test_endpoint_retry[OF assms(1,2,3) i assms(4,5,6,7,8) m assms(9)])
qed

theorem retry_once_annotates_result_witness:
  "test_endpoint passport_world base_env invoice_first 0 upload_api initial_state =
     Inr \<lparr>results =
            [(0, \<lparr>api_name = ''Upload ID'', method_used = Some ''POST'',
                  url = Some ''http://x/upload'', file_used = ''docs/invoice.pdf'',
                  document_type = Some (JStr (ustr ''invoice'')), success = False,
                  status_code = Some 422, error_message = ''passport required'',
                  response_headers = Some [], retry_success = Some True,
                  correct_document = Some ''docs/passport_scan.pdf''\<rparr>)],
          used_documents = {''docs/passport_scan.pdf''},
          dispatches = [(0, ''docs/invoice.pdf''), (0, ''docs/passport_scan.pdf'')]\<rparr>"
proof -
  define available where
    "available = filter (\<lambda>(path, info). path \<notin> used_documents initial_state) invoice_first"
  define random_file where
    "random_file = map fst available ! (random_choice passport_world 0 mod length available)"
  define result where
    "result = test_one_api passport_world base_env 0 0 upload_api random_file
                (the (map_of available random_file))"
  define retry_result where
    "retry_result = test_one_api passport_world base_env 0 1 upload_api ''docs/passport_scan.pdf''
                      (the (map_of invoice_first ''docs/passport_scan.pdf''))"
  have a: "available \<noteq> []"
    unfolding available_def by code_simp
  have f: "random_file = ''docs/invoice.pdf''"
    unfolding random_file_def available_def by code_simp
  have r: "result =
             \<lparr>api_name = ''Upload ID'', method_used = Some ''POST'',
              url = Some ''http://x/upload'', file_used = ''docs/invoice.pdf'',
              document_type = Some (JStr (ustr ''invoice'')), success = False,
              status_code = Some 422, error_message = ''passport required'',
              response_headers = Some [], retry_success = None, correct_document = None\<rparr>"
    unfolding result_def random_file_def available_def by code_simp
  have s: "\<not> success result"
    by (simp add: r)
  have t: "truthy (ask_gemini_what_went_wrong passport_world 0 result)"
    unfolding r by code_simp
  have d: "find_document_by_type passport_world invoice_first (ask_gemini_what_went_wrong passport_world 0 result) =
             Inr (Some ''docs/passport_scan.pdf'')"
    unfolding r by code_simp
  have n: "''docs/passport_scan.pdf'' \<noteq> []"
    by simp
  have rs: "success retry_result"
    unfolding retry_result_def by code_simp
  have u: "used_documents initial_state = {}" "results initial_state = []"
          "dispatches initial_state = []"
    by (simp_all add: initial_state_def)
  show ?thesis
    using retry_once_annotates_result [OF available_def a random_file_def result_def s t d n
            retry_result_def]
    by (simp add: rs u f r)
qed

text \<open>
  C3, as stated, fails: the text below holds two well-formed JSON objects, the
  first with \<open>required_document_type\<close> \<open>passport\<close>, and the diagnosis is null.
\<close>

theorem first_json_object_not_extracted:
  "json_loads passport_world ''{\"required_document_type\": \"passport\"}'' =
     Some (JObj [(ustr ''required_document_type'', JStr (ustr ''passport''))])
   \<and> required_type_of_text passport_world
        ''{\"required_document_type\": \"passport\"} or {\"required_document_type\": \"visa\"}'' =
       JNull"
  by code_simp

text \<open>
  C3, amended. For every response text of the diagnosis oracle, the core takes the
  span from the first opening brace to the last closing brace of the text, parses
  that span as one JSON document and returns its \<open>required_document_type\<close> field,
  null when the object has none; when the span does not parse, or the text has no
  opening brace followed by a closing brace, the diagnosis is null. When the
  diagnosis is null the engine records exactly one Attempt Result for the endpoint
  and makes no retry.
\<close>

theorem diagnosis_from_brace_span:
  "(open_read w ''prompts/normalize_error.md'' = Inr instructions \<and>
    generate_content w k instructions (status_code r) (take 1000 (error_message r)) = Inr response_text \<longrightarrow>
      ask_gemini_what_went_wrong w k r = required_type_of_text w response_text)
   \<and> (CHR ''{'' \<notin> set pre \<and> CHR ''}'' \<notin> set post \<longrightarrow>
      required_type_of_text w (pre @ ''{'' @ mid @ ''}'' @ post) =
        (case json_loads w (''{'' @ mid @ ''}'') of
           Some (JObj d) \<Rightarrow> dict_get d (ustr ''required_document_type'') JNull
         | _ \<Rightarrow> JNull))
   \<and> ((\<forall>pre mid post. response_text \<noteq> pre @ ''{'' @ mid @ ''}'' @ post) \<longrightarrow>
      required_type_of_text w response_text = JNull)
   \<and> (available = filter (\<lambda>(path, info). path \<notin> used_documents st) dm \<and>
      available \<noteq> [] \<and>
      random_file = map fst available ! (random_choice w k mod length available) \<and>
      result = test_one_api w env k 0 api random_file (the (map_of available random_file)) \<and>
      \<not> success result \<and>
      ask_gemini_what_went_wrong w k result = JNull \<longrightarrow>
      test_endpoint w env dm k api st =
        Inr \<lparr>results = results st @ [(k, result)],
             used_documents = used_documents st,
             dispatches = dispatches st @ [(k, random_file)]\<rparr>)"
proof (intro conjI impI)
  assume "open_read w ''prompts/normalize_error.md'' = Inr instructions \<and>
    generate_content w k instructions (status_code r) (take 1000 (error_message r)) = Inr response_text"
  then show "ask_gemini_what_went_wrong w k r = required_type_of_text w response_text"
    by (simp add: ask_gemini_what_went_wrong_def)
next
  assume "CHR ''{'' \<notin> set pre \<and> CHR ''}'' \<notin> set post"
  then show "required_type_of_text w (pre @ ''{'' @ mid @ ''}'' @ post) =
        (case json_loads w (''{'' @ mid @ ''}'') of
           Some (JObj d) \<Rightarrow> dict_get d (ustr ''required_document_type'') JNull
         | _ \<Rightarrow> JNull)"
    using required_type_of_span by blast
next
  assume "\<forall>pre mid post. response_text \<noteq> pre @ ''{'' @ mid @ ''}'' @ post"
  then show "required_type_of_text w response_text = JNull"
    by (rule required_type_no_span)
next
  assume h: "available = filter (\<lambda>(path, info). path \<notin> used_documents st) dm \<and>
      available \<noteq> [] \<and>
      random_file = map fst available ! (random_choice w k mod length available) \<and>
      result = test_one_api w env k 0 api random_file (the (map_of available random_file)) \<and>
      \<not> success result \<and>
      ask_gemini_what_went_wrong w k result = JNull"
  then have i: "map_of available random_file = Some (the (map_of available random_file))"
    using first_attempt_info by blast
  from h have "ask_gemini_what_went_wrong w k result = JNull"
    by blast
  then have "\<not> truthy (ask_gemini_what_went_wrong w k result)"
    by simp
  then have "\<not> truthy (ask_gemini_what_went_wrong w k result)
         \<or> find_document_by_type w dm (ask_gemini_what_went_wrong w k result) = Inr None
         \<or> find_document_by_type w dm (ask_gemini_what_went_wrong w k result) = Inr (Some [])"
    by blast
  with h i show "test_endpoint w env dm k api st =
        Inr \<lparr>results = results st @ [(k, result)],
             used_documents = used_documents st,
             dispatches = dispatches st @ [(k, random_file)]\<rparr>"
    using test_endpoint_no_retry by blast
qed

theorem diagnosis_from_brace_span_witness:
  "ask_gemini_what_went_wrong passport_world 0
       (failed_attempt upload_api ''docs/invoice.pdf'' ''timed out'') = JStr (ustr ''passport'')
   \<and> required_type_of_text passport_world ''I cannot tell.'' = JNull
   \<and> required_type_of_text passport_world
       (''{\"required_document_type\": \"passport\", \"note\": \"'' @ [CHR 0x5C]
          @ ''u2713 ok\"}'') = JStr (ustr ''passport'')
   \<and> test_endpoint undecided_world base_env invoice_first 0 upload_api initial_state =
     Inr \<lparr>results =
            [(0, \<lparr>api_name = ''Upload ID'', method_used = Some ''POST'',
                  url = Some ''http://x/upload'', file_used = ''docs/invoice.pdf'',
                  document_type = Some (JStr (ustr ''invoice'')), success = False,
                  status_code = Some 422, error_message = ''passport required'',
                  response_headers = Some [], retry_success = None,
                  correct_document = None\<rparr>)],
          used_documents = {},
          dispatches = [(0, ''docs/invoice.pdf'')]\<rparr>"
proof -
  let ?r = "failed_attempt upload_api ''docs/invoice.pdf'' ''timed out''"
  let ?t = "''Answer: {\"required_document_type\": \"passport\"}''"
  note claim = diagnosis_from_brace_span
  have o: "open_read passport_world ''prompts/normalize_error.md'' = Inr ''data''"
    by (simp add: passport_world_def)
  have g: "generate_content passport_world 0 ''data'' (status_code ?r)
             (take 1000 (error_message ?r)) = Inr ?t"
    by (simp add: passport_world_def)
  have c1: "ask_gemini_what_went_wrong passport_world 0 ?r = required_type_of_text passport_world ?t"
    using claim [of passport_world "''data''" 0 ?r ?t] o g by blast
  have j: "json_loads passport_world (''{'' @ ''\"required_document_type\": \"passport\"'' @ ''}'') =
             Some (JObj [(ustr ''required_document_type'', JStr (ustr ''passport''))])"
    by code_simp
  have "CHR ''{'' \<notin> set ''Answer: '' \<and> CHR ''}'' \<notin> set []"
    by simp
  then have "required_type_of_text passport_world
            (''Answer: '' @ ''{'' @ ''\"required_document_type\": \"passport\"'' @ ''}'' @ []) =
          (case json_loads passport_world (''{'' @ ''\"required_document_type\": \"passport\"'' @ ''}'') of
             Some (JObj d) \<Rightarrow> dict_get d (ustr ''required_document_type'') JNull
           | _ \<Rightarrow> JNull)"
    using claim [where pre = "''Answer: ''" and post = "[]"
                 and mid = "''\"required_document_type\": \"passport\"''"]
    by blast
  then have c2: "required_type_of_text passport_world ?t = JStr (ustr ''passport'')"
    unfolding j by (simp add: dict_get_def)
  have ns: "\<forall>pre mid post. ''I cannot tell.'' \<noteq> pre @ ''{'' @ mid @ ''}'' @ post"
  proof (intro allI notI)
    fix pre mid post :: string
    assume "''I cannot tell.'' = pre @ ''{'' @ mid @ ''}'' @ post"
    then have "set ''I cannot tell.'' = set (pre @ ''{'' @ mid @ ''}'' @ post)"
      by (rule arg_cong)
    then have "CHR ''{'' \<in> set ''I cannot tell.''"
      by (simp only: set_append) simp
    then show False by simp
  qed
  have c3: "required_type_of_text passport_world ''I cannot tell.'' = JNull"
    using claim [where response_text = "''I cannot tell.''"] ns by blast
  let ?m = "''\"required_document_type\": \"passport\", \"note\": \"'' @ [CHR 0x5C] @ ''u2713 ok\"''"
  have j2: "json_loads passport_world (''{'' @ ?m @ ''}'') =
              Some (JObj [(ustr ''required_document_type'', JStr (ustr ''passport'')),
                          (ustr ''note'', JStr (10003 # ustr '' ok''))])"
    by code_simp
  have "CHR ''{'' \<notin> set [] \<and> CHR ''}'' \<notin> set []"
    by simp
  then have "required_type_of_text passport_world ([] @ ''{'' @ ?m @ ''}'' @ []) =
          (case json_loads passport_world (''{'' @ ?m @ ''}'') of
             Some (JObj d) \<Rightarrow> dict_get d (ustr ''required_document_type'') JNull
           | _ \<Rightarrow> JNull)"
    using claim [where pre = "[]" and post = "[]" and mid = ?m]
    by blast
  then have c5: "required_type_of_text passport_world
       (''{\"required_document_type\": \"passport\", \"note\": \"'' @ [CHR 0x5C]
          @ ''u2713 ok\"}'') = JStr (ustr ''passport'')"
    unfolding j2 by (simp add: dict_get_def)
  define available where
    "available = filter (\<lambda>(path, info). path \<notin> used_documents initial_state) invoice_first"
  define random_file where
    "random_file = map fst available ! (random_choice undecided_world 0 mod length available)"
  define result where
    "result = test_one_api undecided_world base_env 0 0 upload_api random_file
                (the (map_of available random_file))"
  have a: "available \<noteq> []"
    unfolding available_def by code_simp
  have f: "random_file = ''docs/invoice.pdf''"
    unfolding random_file_def available_def by code_simp
  have r: "result =
             \<lparr>api_name = ''Upload ID'', method_used = Some ''POST'',
              url = Some ''http://x/upload'', file_used = ''docs/invoice.pdf'',
              document_type = Some (JStr (ustr ''invoice'')), success = False,
              status_code = Some 422, error_message = ''passport required'',
              response_headers = Some [], retry_success = None, correct_document = None\<rparr>"
    unfolding result_def random_file_def available_def by code_simp
  have s: "\<not> success result"
    by (simp add: r)
  have n: "ask_gemini_what_went_wrong undecided_world 0 result = JNull"
    unfolding r by code_simp
  have u: "used_documents initial_state = {}" "results initial_state = []"
          "dispatches initial_state = []"
    by (simp_all add: initial_state_def)
  have c4: "test_endpoint undecided_world base_env invoice_first 0 upload_api initial_state =
        Inr \<lparr>results = results initial_state @ [(0, result)],
             used_documents = used_documents initial_state,
             dispatches = dispatches initial_state @ [(0, random_file)]\<rparr>"
    using claim [where available = available and st = initial_state and dm = invoice_first
                 and random_file = random_file and w = undecided_world and k = 0
                 and result = result and env = base_env and api = upload_api]
          available_def a random_file_def result_def s n
    by blast
  show ?thesis
    using c1 c2 c3 c4 c5 by (simp add: u f r)
qed

text \<open>
  C4. An attempt is a success exactly when the request is built, the transport
  call returns a response and its status code is 200, 201 or 204. A response with
  any other status gives a failure result holding the status code and the response
  body; an exception of the transport, or one raised while the request is built,
  gives a failure result holding the exception's text. \<open>test_one_api\<close> has a
  result in every case: no exception leaves it.
\<close>

theorem attempt_outcome:
  "(success (test_one_api w env k a api fp info) \<longleftrightarrow>
      (\<exists>meth u hs bd r.
          build_request w env api fp = Inr (meth, u, hs, bd) \<and>
          requests_request w k a
            \<lparr>http_method = meth, http_url = u, http_headers = hs,
             http_payload = payload_of bd\<rparr> = Inr r \<and>
          resp_status_code r \<in> {200, 201, 204}))
   \<and> (\<forall>meth u hs bd r.
          build_request w env api fp = Inr (meth, u, hs, bd) \<and>
          requests_request w k a
            \<lparr>http_method = meth, http_url = u, http_headers = hs,
             http_payload = payload_of bd\<rparr> = Inr r \<and>
          resp_status_code r \<notin> {200, 201, 204} \<longrightarrow>
          \<not> success (test_one_api w env k a api fp info) \<and>
          status_code (test_one_api w env k a api fp info) = Some (resp_status_code r) \<and>
          error_message (test_one_api w env k a api fp info) = resp_text r)
   \<and> (\<forall>meth u hs bd e.
          build_request w env api fp = Inr (meth, u, hs, bd) \<and>
          requests_request w k a
            \<lparr>http_method = meth, http_url = u, http_headers = hs,
             http_payload = payload_of bd\<rparr> = Inl e \<longrightarrow>
          \<not> success (test_one_api w env k a api fp info) \<and>
          error_message (test_one_api w env k a api fp info) = e)
   \<and> (\<forall>e. build_request w env api fp = Inl e \<longrightarrow>
          \<not> success (test_one_api w env k a api fp info) \<and>
          error_message (test_one_api w env k a api fp info) = e)"
  unfolding test_one_api_def failed_attempt_def Let_def
  by (auto split: sum.splits prod.splits)

theorem attempt_outcome_witness:
  "success (test_one_api passport_world base_env 0 1 upload_api ''docs/passport_scan.pdf''
              [(ustr ''document_type'', JStr (ustr ''passport_scan''))])
   \<and> \<not> success (test_one_api passport_world base_env 0 0 upload_api ''docs/invoice.pdf''
                  [(ustr ''document_type'', JStr (ustr ''invoice''))])
   \<and> status_code (test_one_api passport_world base_env 0 0 upload_api ''docs/invoice.pdf''
                    [(ustr ''document_type'', JStr (ustr ''invoice''))]) = Some 422
   \<and> error_message (test_one_api passport_world base_env 0 0 upload_api ''docs/invoice.pdf''
                      [(ustr ''document_type'', JStr (ustr ''invoice''))]) = ''passport required''"
proof -
  let ?bd = "\<lambda>nm. \<lparr>files = Some [(Some ''file'', FilePart nm ''data'' ''application/pdf'')],
                    content = None\<rparr>"
  have b0: "build_request passport_world base_env upload_api ''docs/invoice.pdf'' =
              Inr (''POST'', ''http://x/upload'', [], ?bd ''invoice.pdf'')"
    by code_simp
  have r0: "requests_request passport_world 0 0
              \<lparr>http_method = ''POST'', http_url = ''http://x/upload'', http_headers = [],
               http_payload = payload_of (?bd ''invoice.pdf'')\<rparr> = Inr unprocessable"
    by code_simp
  have b1: "build_request passport_world base_env upload_api ''docs/passport_scan.pdf'' =
              Inr (''POST'', ''http://x/upload'', [], ?bd ''passport_scan.pdf'')"
    by code_simp
  have r1: "requests_request passport_world 0 1
              \<lparr>http_method = ''POST'', http_url = ''http://x/upload'', http_headers = [],
               http_payload = payload_of (?bd ''passport_scan.pdf'')\<rparr> =
              Inr \<lparr>resp_status_code = 200, resp_text = ''ok'', resp_headers = []\<rparr>"
    by code_simp
  have s: "resp_status_code unprocessable \<notin> {200, 201, 204}"
          "resp_status_code unprocessable = 422" "resp_text unprocessable = ''passport required''"
    by (simp_all add: unprocessable_def)
  have "success (test_one_api passport_world base_env 0 1 upload_api ''docs/passport_scan.pdf''
                   [(ustr ''document_type'', JStr (ustr ''passport_scan''))])"
    using attempt_outcome [of passport_world base_env 0 1 upload_api "''docs/passport_scan.pdf''"
            "[(ustr ''document_type'', JStr (ustr ''passport_scan''))]"] b1 r1
    by simp
  moreover have
    "\<not> success (test_one_api passport_world base_env 0 0 upload_api ''docs/invoice.pdf''
                  [(ustr ''document_type'', JStr (ustr ''invoice''))])
     \<and> status_code (test_one_api passport_world base_env 0 0 upload_api ''docs/invoice.pdf''
                  [(ustr ''document_type'', JStr (ustr ''invoice''))]) = Some (resp_status_code unprocessable)
     \<and> error_message (test_one_api passport_world base_env 0 0 upload_api ''docs/invoice.pdf''
                  [(ustr ''document_type'', JStr (ustr ''invoice''))]) = resp_text unprocessable"
    using attempt_outcome [of passport_world base_env 0 0 upload_api "''docs/invoice.pdf''"
            "[(ustr ''document_type'', JStr (ustr ''invoice''))]"] b0 r0 s(1)
    by blast
  ultimately show ?thesis using s(2,3) by simp
qed

text \<open>
  C5. For a required document type returned by diagnosis, a text, and a Document
  Store whose type labels are texts, the retry-document search returns the first
  entry, in the store's order, whose lowercased type label and the lowercased
  required type are in a substring relation in either direction, and returns no
  document when no entry matches.
\<close>

theorem find_document_by_type_first_match:
  assumes "\<forall>(p, info) \<in> set dm. \<exists>label. dict_get info (ustr ''document_type'') (JStr []) = JStr label"
  shows "find_document_by_type w dm (JStr required) =
           Inr (map_option fst (find (\<lambda>(p, info). matches_required_type w required info) dm))
       \<and> ((\<forall>(p, info) \<in> set dm. \<not> matches_required_type w required info) \<longrightarrow>
            find_document_by_type w dm (JStr required) = Inr None)"
proof -
  have a: "find_document_by_type w dm (JStr required) =
           Inr (map_option fst (find (\<lambda>(p, info). matches_required_type w required info) dm))"
    using find_in_store_find[OF assms] by (simp add: find_document_by_type_def)
  moreover have "find (\<lambda>(p, info). matches_required_type w required info) dm = None"
    if "\<forall>(p, info) \<in> set dm. \<not> matches_required_type w required info"
    using that by (auto simp: find_None_iff)
  ultimately show ?thesis by simp
qed

theorem find_document_by_type_first_match_witness:
  "find_document_by_type passport_world invoice_first (JStr (ustr ''Passport'')) = Inr (Some ''docs/passport_scan.pdf'')
   \<and> find_document_by_type passport_world invoice_first (JStr (ustr ''visa'')) = Inr None"
proof -
  have h: "\<forall>(p, info) \<in> set invoice_first.
             \<exists>label. dict_get info (ustr ''document_type'') (JStr []) = JStr label"
    by (simp add: invoice_first_def dict_get_def)
  have e: "\<not> str_in (ustr_lower passport_world (ustr ''Passport'')) (ustr_lower passport_world (ustr ''invoice''))"
          "\<not> str_in (ustr_lower passport_world (ustr ''invoice'')) (ustr_lower passport_world (ustr ''Passport''))"
          "str_in (ustr_lower passport_world (ustr ''Passport'')) (ustr_lower passport_world (ustr ''passport_scan''))"
          "\<not> str_in (ustr_lower passport_world (ustr ''visa'')) (ustr_lower passport_world (ustr ''invoice''))"
          "\<not> str_in (ustr_lower passport_world (ustr ''invoice'')) (ustr_lower passport_world (ustr ''visa''))"
          "\<not> str_in (ustr_lower passport_world (ustr ''visa'')) (ustr_lower passport_world (ustr ''passport_scan''))"
          "\<not> str_in (ustr_lower passport_world (ustr ''passport_scan'')) (ustr_lower passport_world (ustr ''visa''))"
    by code_simp+
  have f: "find (\<lambda>(p, info). matches_required_type passport_world (ustr ''Passport'') info) invoice_first =
             Some (''docs/passport_scan.pdf'', [(ustr ''document_type'', JStr (ustr ''passport_scan''))])"
    using e by (simp add: invoice_first_def matches_required_type_def dict_get_def
                      str_in_iff_sublist)
  have g: "\<forall>(p, info) \<in> set invoice_first. \<not> matches_required_type passport_world (ustr ''visa'') info"
    using e by (simp add: invoice_first_def matches_required_type_def dict_get_def
                      str_in_iff_sublist)
  have p: "find_document_by_type passport_world invoice_first (JStr (ustr ''Passport'')) =
             Inr (Some ''docs/passport_scan.pdf'')"
    using find_document_by_type_first_match [OF h, of passport_world "ustr ''Passport''"] f by simp
  have v: "find_document_by_type passport_world invoice_first (JStr (ustr ''visa'')) = Inr None"
    using find_document_by_type_first_match [OF h, of passport_world "ustr ''visa''"] g by blast
  show ?thesis using p v by simp
qed

text \<open>
  C6, as stated, fails: with \<open>base\<close> bound, the templates \<open>{{{base}}}\<close> and
  \<open>{{x {{base}}\<close> both contain the substring \<open>{{base}}\<close> and come back unchanged.
  The scan reads the names \<open>{base\<close> and \<open>x {{base\<close> there, which the Environment
  does not hold.
\<close>

theorem placeholder_inside_another_kept:
  "replace_variables [''base'' \<mapsto> ''http://x''] ''{{{base}}}'' = ''{{{base}}}''
   \<and> replace_variables [''base'' \<mapsto> ''http://x''] ''{{x {{base}}'' = ''{{x {{base}}''"
  by (simp add: match_placeholder_def replacer_def)

text \<open>
  C6, amended. Variable resolution scans the template from the left. Where the
  text at the scan position is \<open>{{name}}\<close>, the name being a non-empty run of
  characters other than the closing brace, it emits the Environment's value for
  the name, verbatim, when the name is present, and the literal \<open>{{name}}\<close> when it
  is absent, and goes on after the placeholder; elsewhere it copies one character
  and goes on. So a placeholder before which no \<open>{{\<close> opens is resolved in this way
  and the text after it likewise; a \<open>{{name}}\<close> inside the name that an earlier
  \<open>{{\<close> makes the scan read is not resolved on its own. In particular
  \<open>{{base}}/upload\<close> with \<open>base\<close> bound to \<open>http://x\<close> resolves to \<open>http://x/upload\<close>,
  and \<open>{{missing}}\<close> with an empty Environment resolves to itself.
\<close>

theorem replace_variables_resolves:
  "(name \<noteq> [] \<and> CHR ''}'' \<notin> set name \<longrightarrow>
      replace_variables env (''{{'' @ name @ ''}}'' @ rest) =
        (case env name of Some v \<Rightarrow> v | None \<Rightarrow> ''{{'' @ name @ ''}}'')
          @ replace_variables env rest)
   \<and> ((\<forall>nm r. nm \<noteq> [] \<and> CHR ''}'' \<notin> set nm \<longrightarrow> c # cs \<noteq> ''{{'' @ nm @ ''}}'' @ r) \<longrightarrow>
      replace_variables env (c # cs) = c # replace_variables env cs)
   \<and> replace_variables env [] = []
   \<and> (\<not> sublist ''{{'' (pre @ ''{'') \<and> name \<noteq> [] \<and> CHR ''}'' \<notin> set name \<longrightarrow>
      replace_variables env (pre @ ''{{'' @ name @ ''}}'' @ rest) =
        pre @ (case env name of Some v \<Rightarrow> v | None \<Rightarrow> ''{{'' @ name @ ''}}'')
            @ replace_variables env rest)
   \<and> replace_variables [''base'' \<mapsto> ''http://x''] ''{{base}}/upload'' = ''http://x/upload''
   \<and> replace_variables Map.empty ''{{missing}}'' = ''{{missing}}''"
proof (intro conjI impI)
  assume "name \<noteq> [] \<and> CHR ''}'' \<notin> set name"
  then have "replace_variables env ([] @ ''{{'' @ name @ ''}}'' @ rest) =
               [] @ replacer env name @ replace_variables env rest"
    by (intro replace_variables_first) (simp_all add: sublist_Cons_right)
  then show "replace_variables env (''{{'' @ name @ ''}}'' @ rest) =
        (case env name of Some v \<Rightarrow> v | None \<Rightarrow> ''{{'' @ name @ ''}}'')
          @ replace_variables env rest"
    by (simp add: replacer_def)
next
  assume n: "\<forall>nm r. nm \<noteq> [] \<and> CHR ''}'' \<notin> set nm \<longrightarrow> c # cs \<noteq> ''{{'' @ nm @ ''}}'' @ r"
  have "match_placeholder (c # cs) = None"
  proof (rule ccontr)
    assume "match_placeholder (c # cs) \<noteq> None"
    then obtain nm where "match_placeholder (c # cs) = Some nm" by auto
    from match_placeholder_shape[OF this] n show False by blast
  qed
  then show "replace_variables env (c # cs) = c # replace_variables env cs"
    by simp
next
  show "replace_variables env [] = []" by simp
next
  assume h: "\<not> sublist ''{{'' (pre @ ''{'') \<and> name \<noteq> [] \<and> CHR ''}'' \<notin> set name"
  then have "replace_variables env (pre @ ''{{'' @ name @ ''}}'' @ rest) =
               pre @ replacer env name @ replace_variables env rest"
    by (intro replace_variables_first) simp_all
  then show "replace_variables env (pre @ ''{{'' @ name @ ''}}'' @ rest) =
        pre @ (case env name of Some v \<Rightarrow> v | None \<Rightarrow> ''{{'' @ name @ ''}}'')
            @ replace_variables env rest"
    by (simp add: replacer_def)
next
  show "replace_variables [''base'' \<mapsto> ''http://x''] ''{{base}}/upload'' = ''http://x/upload''"
    by (simp add: match_placeholder_def replacer_def)
next
  show "replace_variables Map.empty ''{{missing}}'' = ''{{missing}}''"
    by (simp add: match_placeholder_def replacer_def)
qed

theorem replace_variables_resolves_witness:
  "\<not> sublist ''{{'' (''GET {x} '' @ ''{'') \<and> ''base'' \<noteq> [] \<and> CHR ''}'' \<notin> set ''base''
   \<and> replace_variables [''base'' \<mapsto> ''http://x''] ''GET {x} {{base}}/{{id}}'' =
       ''GET {x} http://x/{{id}}''
   \<and> replace_variables [''base'' \<mapsto> ''http://x''] ''{{base}}{{}}'' = ''http://x{{}}''"
proof -
  note claim = replace_variables_resolves
  have h: "\<not> sublist ''{{'' (''GET {x} '' @ ''{'') \<and> ''base'' \<noteq> [] \<and> CHR ''}'' \<notin> set ''base''"
    by (simp add: sublist_Cons_right)
  have r: "replace_variables [''base'' \<mapsto> ''http://x''] ''/{{id}}'' = ''/{{id}}''"
    by (simp add: match_placeholder_def replacer_def)
  have a: "replace_variables [''base'' \<mapsto> ''http://x''] ''GET {x} {{base}}/{{id}}'' =
             ''GET {x} http://x/{{id}}''"
    using h r
      claim [of "''base''" "[''base'' \<mapsto> ''http://x'']" "''/{{id}}''" _ _ "''GET {x} ''"]
    by simp
  have e: "replace_variables [''base'' \<mapsto> ''http://x''] [] = []"
    using claim [of _ "[''base'' \<mapsto> ''http://x'']"] by blast
  have n1: "\<forall>nm r. nm \<noteq> [] \<and> CHR ''}'' \<notin> set nm \<longrightarrow>
              CHR ''}'' # ''}'' \<noteq> ''{{'' @ nm @ ''}}'' @ r"
    by simp
  have n2: "\<forall>nm r. nm \<noteq> [] \<and> CHR ''}'' \<notin> set nm \<longrightarrow>
              CHR ''{'' # ''}}'' \<noteq> ''{{'' @ nm @ ''}}'' @ r"
    by simp
  have n3: "\<forall>nm r. nm \<noteq> [] \<and> CHR ''}'' \<notin> set nm \<longrightarrow>
              CHR ''{'' # ''{}}'' \<noteq> ''{{'' @ nm @ ''}}'' @ r"
  proof (intro allI impI notI)
    fix nm r :: string
    assume "nm \<noteq> [] \<and> CHR ''}'' \<notin> set nm" and "CHR ''{'' # ''{}}'' = ''{{'' @ nm @ ''}}'' @ r"
    then show False by (cases nm) auto
  qed
  have s1: "replace_variables [''base'' \<mapsto> ''http://x''] ''}'' = ''}''"
    using claim [of _ "[''base'' \<mapsto> ''http://x'']" _ "CHR ''}''" "[]"] e by simp
  have s2: "replace_variables [''base'' \<mapsto> ''http://x''] ''}}'' = ''}}''"
    using claim [of _ "[''base'' \<mapsto> ''http://x'']" _ "CHR ''}''" "''}''"] n1 s1 by simp
  have s3: "replace_variables [''base'' \<mapsto> ''http://x''] ''{}}'' = ''{}}''"
    using claim [of _ "[''base'' \<mapsto> ''http://x'']" _ "CHR ''{''" "''}}''"] n2 s2 by simp
  have s4: "replace_variables [''base'' \<mapsto> ''http://x''] ''{{}}'' = ''{{}}''"
    using claim [of _ "[''base'' \<mapsto> ''http://x'']" _ "CHR ''{''" "''{}}''"] n3 s3 by simp
  have b: "replace_variables [''base'' \<mapsto> ''http://x''] ''{{base}}{{}}'' = ''http://x{{}}''"
    using claim [of "''base''" "[''base'' \<mapsto> ''http://x'']" "''{{}}''"] s4 by simp
  show ?thesis using h a b by simp
qed

text \<open>
  C7. Retry bound. In every run that returns, each endpoint has at most two calls
  of \<open>_test_one_api\<close>, the first attempt and at most one retry, and at most two
  recorded Attempt Results.
\<close>

theorem retry_bound:
  assumes "run_apis w env dm collection = Inr st"
  shows "length (filter (\<lambda>(i, path). i = k) (dispatches st)) \<le> 2
       \<and> length (filter (\<lambda>(i, r). i = k) (results st)) \<le> 2"
proof -
  from run_endpoints_trace[OF assms[unfolded run_apis_def]] obtain ds rs where
    a: "dispatches st = ds" "results st = rs"
       "\<forall>j. length (filter (\<lambda>x. fst x = j) ds) \<le> 2 \<and> length (filter (\<lambda>x. fst x = j) rs) \<le> 1"
    by (auto simp: initial_state_def)
  have "(\<lambda>(i, path). i = k) = (\<lambda>x :: nat \<times> string. fst x = k)"
       "(\<lambda>(i, r). i = k) = (\<lambda>x :: nat \<times> attempt_result. fst x = k)"
    by auto
  with a show ?thesis
    by (metis le_trans one_le_numeral)
qed

theorem retry_bound_witness:
  "\<not> isl (run_apis passport_world base_env passport_first two_endpoints)
   \<and> length (filter (\<lambda>(i, path). i = 1)
        (dispatches (projr (run_apis passport_world base_env passport_first two_endpoints)))) \<le> 2
   \<and> length (filter (\<lambda>(i, r). i = 1)
        (results (projr (run_apis passport_world base_env passport_first two_endpoints)))) \<le> 2"
proof -
  have n: "\<not> isl (run_apis passport_world base_env passport_first two_endpoints)"
    by code_simp
  then have "run_apis passport_world base_env passport_first two_endpoints =
               Inr (projr (run_apis passport_world base_env passport_first two_endpoints))"
    by simp
  from retry_bound [OF this, of 1] n show ?thesis by simp
qed

text \<open>
  C8, as stated, fails: with a warm cache the call can end without a Document
  Store. Step 4 makes the directory of the cache file and rewrites the file on
  every call; for a cache file named without a directory \<open>os.makedirs('')\<close> raises,
  and so does the rewrite of a file that cannot be written.
\<close>

theorem warm_cache_store_not_returned:
  "classify_documents warm_world [''docs/invoice.pdf'', ''docs/passport_scan.pdf'']
     (Some ''document_classifications.json'') =
     (Inl (''[Errno 2] No such file or directory: '' @ [CHR 0x27, CHR 0x27]), [])
   \<and> classify_documents read_only_world [''docs/invoice.pdf'', ''docs/passport_scan.pdf'']
       (Some ''out/document_classifications.json'') =
     (Inl ''[Errno 13] Permission denied'', [])"
  by code_simp

text \<open>
  C8, amended. Classification idempotence. With a warm cache, every file found
  being a key of the loaded cache, \<open>classify_documents\<close> makes no call of the
  classification oracle, and when the directory of the cache file is made and the
  file rewritten without an exception it returns the cache unchanged. In
  particular a second run over the same files, loading what a first run returned
  and saving it without an exception, returns it again with no oracle call.
\<close>

theorem classify_documents_warm_cache:
  "(cache_file \<noteq> [] \<and> path_exists w cache_file \<and> read_json w cache_file = Inr cache \<and>
    set all_files \<subseteq> fst ` set cache \<longrightarrow>
      snd (classify_documents w all_files (Some cache_file)) = [] \<and>
      (os_makedirs w (dirname cache_file) = None \<and> write_json w cache_file cache = None \<longrightarrow>
         classify_documents w all_files (Some cache_file) = (Inr cache, [])))
   \<and> (cache_file \<noteq> [] \<and>
      classify_documents w all_files (Some cache_file) = (Inr store, calls) \<and>
      path_exists w' cache_file \<and> read_json w' cache_file = Inr store \<and>
      os_makedirs w' (dirname cache_file) = None \<and> write_json w' cache_file store = None \<longrightarrow>
        classify_documents w' all_files (Some cache_file) = (Inr store, []))"
proof (intro conjI impI)
  assume h: "cache_file \<noteq> [] \<and> path_exists w cache_file \<and> read_json w cache_file = Inr cache \<and>
    set all_files \<subseteq> fst ` set cache"
  show "snd (classify_documents w all_files (Some cache_file)) = []"
    using classify_documents_warm[of cache_file w cache all_files] h
    by (auto split: option.splits)
next
  assume h: "cache_file \<noteq> [] \<and> path_exists w cache_file \<and> read_json w cache_file = Inr cache \<and>
    set all_files \<subseteq> fst ` set cache"
    and s: "os_makedirs w (dirname cache_file) = None \<and> write_json w cache_file cache = None"
  have "save_results w (Some cache_file) cache = None"
    using h s by (simp add: save_results_def)
  then show "classify_documents w all_files (Some cache_file) = (Inr cache, [])"
    using classify_documents_warm[of cache_file w cache all_files] h by simp
next
  assume h: "cache_file \<noteq> [] \<and>
      classify_documents w all_files (Some cache_file) = (Inr store, calls) \<and>
      path_exists w' cache_file \<and> read_json w' cache_file = Inr store \<and>
      os_makedirs w' (dirname cache_file) = None \<and> write_json w' cache_file store = None"
  from h have "set all_files \<subseteq> fst ` set store"
    using classify_documents_keys by blast
  moreover have "save_results w' (Some cache_file) store = None"
    using h by (simp add: save_results_def)
  ultimately show "classify_documents w' all_files (Some cache_file) = (Inr store, [])"
    using classify_documents_warm[of cache_file w' store all_files] h by simp
qed

theorem classify_documents_warm_cache_witness:
  "classify_documents warm_world [''docs/invoice.pdf'', ''docs/passport_scan.pdf'']
     (Some ''out/document_classifications.json'') = (Inr invoice_first, [])
   \<and> classify_documents classifying_world [''docs/invoice.pdf'', ''docs/passport_scan.pdf'']
       (Some ''out/document_classifications.json'') =
     (Inr [(''docs/invoice.pdf'', invoice_classification),
           (''docs/passport_scan.pdf'', invoice_classification)],
      [''docs/invoice.pdf'', ''docs/passport_scan.pdf''])
   \<and> classify_documents
       (classifying_world\<lparr>path_exists := (\<lambda>path. True),
                          read_json := (\<lambda>path.
                            Inr [(''docs/invoice.pdf'', invoice_classification),
                                 (''docs/passport_scan.pdf'', invoice_classification)])\<rparr>)
       [''docs/invoice.pdf'', ''docs/passport_scan.pdf'']
       (Some ''out/document_classifications.json'') =
     (Inr [(''docs/invoice.pdf'', invoice_classification),
           (''docs/passport_scan.pdf'', invoice_classification)], [])"
proof -
  note claim = classify_documents_warm_cache
  let ?files = "[''docs/invoice.pdf'', ''docs/passport_scan.pdf'']"
  let ?cf = "''out/document_classifications.json''"
  let ?store = "[(''docs/invoice.pdf'', invoice_classification),
                 (''docs/passport_scan.pdf'', invoice_classification)]"
  let ?again = "classifying_world\<lparr>path_exists := (\<lambda>path. True),
                                   read_json := (\<lambda>path. Inr ?store)\<rparr>"
  have h1: "?cf \<noteq> [] \<and> path_exists warm_world ?cf \<and> read_json warm_world ?cf = Inr invoice_first \<and>
            set ?files \<subseteq> fst ` set invoice_first"
    by (simp add: warm_world_def invoice_first_def)
  have d: "dirname ?cf = ''out''"
    by code_simp
  have s1: "os_makedirs warm_world (dirname ?cf) = None \<and>
            write_json warm_world ?cf invoice_first = None"
    unfolding d
    by (simp add: os_makedirs_def warm_world_def classifying_world_def passport_world_def)
  have a: "classify_documents warm_world ?files (Some ?cf) = (Inr invoice_first, [])"
    using claim [of ?cf warm_world invoice_first ?files] h1 s1 by blast
  have b: "classify_documents classifying_world ?files (Some ?cf) = (Inr ?store, ?files)"
    by code_simp
  have h2: "path_exists ?again ?cf \<and> read_json ?again ?cf = Inr ?store"
    by simp
  have s2: "os_makedirs ?again (dirname ?cf) = None \<and> write_json ?again ?cf ?store = None"
    unfolding d by (simp add: os_makedirs_def classifying_world_def passport_world_def)
  have c: "classify_documents ?again ?files (Some ?cf) = (Inr ?store, [])"
    using claim [of ?cf classifying_world _ ?files ?store ?files ?again] b h2 s2 by blast
  show ?thesis using a b c by simp
qed

text \<open>
  C9. For an endpoint definition whose request specification has no \<open>method\<close>
  field, the request that is built uses the HTTP method \<open>POST\<close>.
\<close>

theorem default_method_post:
  assumes "req_method (config_request api) = None"
    and "build_request w env api fp = Inr (meth, u, hs, bd)"
  shows "meth = ''POST''"
  using assms unfolding build_request_def Let_def
  by (auto split: if_splits sum.splits)

theorem default_method_post_witness:
  "req_method (config_request upload_api) = None
   \<and> build_request passport_world base_env upload_api ''docs/invoice.pdf'' =
       Inr (''POST'', ''http://x/upload'', [],
            \<lparr>files = Some [(Some ''file'', FilePart ''invoice.pdf'' ''data'' ''application/pdf'')],
             content = None\<rparr>)"
proof -
  let ?m = "fst (projr (build_request passport_world base_env upload_api ''docs/invoice.pdf''))"
  have h: "req_method (config_request upload_api) = None"
    by (simp add: upload_api_def upload_request_def)
  have b: "build_request passport_world base_env upload_api ''docs/invoice.pdf'' =
             Inr (?m, ''http://x/upload'', [],
                  \<lparr>files = Some [(Some ''file'',
                                  FilePart ''invoice.pdf'' ''data'' ''application/pdf'')],
                   content = None\<rparr>)"
    by code_simp
  from default_method_post [OF h b] have "?m = ''POST''" .
  with b h show ?thesis by simp
qed

text \<open>
  C10. When the first attempt of an endpoint fails and its retry fails too, the
  run records one Attempt Result for the endpoint, the first one, without
  \<open>retry_success\<close> and \<open>correct_document\<close>, and leaves the Usage Set unchanged. The
  report entry made from it has no correct file and one failed file, the first
  document with the first attempt's error text: it is built from the first
  attempt alone, so the retry and its failure detail are not in the report.
\<close>

theorem failed_retry_not_reported:
  assumes "available = filter (\<lambda>(path, info). path \<notin> used_documents st) dm"
    and "available \<noteq> []"
    and "random_file = map fst available ! (random_choice w k mod length available)"
    and "result = test_one_api w env k 0 api random_file (the (map_of available random_file))"
    and "\<not> success result"
    and "truthy (ask_gemini_what_went_wrong w k result)"
    and "find_document_by_type w dm (ask_gemini_what_went_wrong w k result) =
           Inr (Some matching_doc)"
    and "matching_doc \<noteq> []"
    and "retry_result = test_one_api w env k 1 api matching_doc (the (map_of dm matching_doc))"
    and "\<not> success retry_result"
  shows "test_endpoint w env dm k api st =
           Inr \<lparr>results = results st @ [(k, result)],
                used_documents = used_documents st,
                dispatches = dispatches st @ [(k, random_file), (k, matching_doc)]\<rparr>
       \<and> retry_success result = None \<and> correct_document result = None
       \<and> report_entry dm result =
           Inr \<lparr>apiName = api_name result,
                entry_method = (case method_used result of Some m \<Rightarrow> m | None \<Rightarrow> ''POST''),
                entry_url = (case url result of Some u \<Rightarrow> u | None \<Rightarrow> []),
                correctFiles = [],
                failedFiles = [\<lparr>nameOfFile = basename random_file,
                                failedDocType = result_doc_type result,
                                errorMessage = take 200 (error_message result)\<rparr>]\<rparr>"
proof -
  have i: "map_of available random_file = Some (the (map_of available random_file))"
    unfolding assms(3) using assms(2) by (rule first_attempt_info)
  have m: "map_of dm matching_doc = Some (the (map_of dm matching_doc))"
    using find_document_by_type_key[OF assms(7)] by simp
  have step: "test_endpoint w env dm k api st =
           Inr \<lparr>results = results st @ [(k, result)],
                used_documents = used_documents st,
                dispatches = dispatches st @ [(k, random_file), (k, matching_doc)]\<rparr>"
    using test_endpoint_retry[OF assms(1,2,3) i assms(4,5,6,7,8) m assms(9)] assms(10)
    by simp
  have un: "retry_success result = None" "correct_document result = None"
    unfolding assms(4) using test_one_api_unannotated by blast+
  have fu: "file_used result = random_file"
    unfolding assms(4) test_one_api_def failed_attempt_def Let_def
    by (auto split: sum.splits prod.splits)
  have "report_entry dm result =
           Inr \<lparr>apiName = api_name result,
                entry_method = (case method_used result of Some m \<Rightarrow> m | None \<Rightarrow> ''POST''),
                entry_url = (case url result of Some u \<Rightarrow> u | None \<Rightarrow> []),
                correctFiles = [],
                failedFiles = [\<lparr>nameOfFile = basename random_file,
                                failedDocType = result_doc_type result,
                                errorMessage = take 200 (error_message result)\<rparr>]\<rparr>"
    using assms(5) un fu by (simp add: report_entry_def Let_def)
  with step un show ?thesis by simp
qed

theorem failed_retry_not_reported_witness:
  "test_endpoint rejecting_world base_env invoice_first 0 upload_api initial_state =
     Inr \<lparr>results =
            [(0, \<lparr>api_name = ''Upload ID'', method_used = Some ''POST'',
                  url = Some ''http://x/upload'', file_used = ''docs/invoice.pdf'',
                  document_type = Some (JStr (ustr ''invoice'')), success = False,
                  status_code = Some 422, error_message = ''passport required'',
                  response_headers = Some [], retry_success = None,
                  correct_document = None\<rparr>)],
          used_documents = {},
          dispatches = [(0, ''docs/invoice.pdf''), (0, ''docs/passport_scan.pdf'')]\<rparr>
   \<and> report_entry invoice_first
        \<lparr>api_name = ''Upload ID'', method_used = Some ''POST'',
         url = Some ''http://x/upload'', file_used = ''docs/invoice.pdf'',
         document_type = Some (JStr (ustr ''invoice'')), success = False,
         status_code = Some 422, error_message = ''passport required'',
         response_headers = Some [], retry_success = None, correct_document = None\<rparr> =
     Inr \<lparr>apiName = ''Upload ID'', entry_method = ''POST'', entry_url = ''http://x/upload'',
          correctFiles = [],
          failedFiles = [\<lparr>nameOfFile = ''invoice.pdf'', failedDocType = JStr (ustr ''invoice''),
                          errorMessage = ''passport required''\<rparr>]\<rparr>"
proof -
  define available where
    "available = filter (\<lambda>(path, info). path \<notin> used_documents initial_state) invoice_first"
  define random_file where
    "random_file = map fst available ! (random_choice rejecting_world 0 mod length available)"
  define result where
    "result = test_one_api rejecting_world base_env 0 0 upload_api random_file
                (the (map_of available random_file))"
  define retry_result where
    "retry_result = test_one_api rejecting_world base_env 0 1 upload_api ''docs/passport_scan.pdf''
                      (the (map_of invoice_first ''docs/passport_scan.pdf''))"
  have a: "available \<noteq> []"
    unfolding available_def by code_simp
  have f: "random_file = ''docs/invoice.pdf''"
    unfolding random_file_def available_def by code_simp
  have r: "result =
             \<lparr>api_name = ''Upload ID'', method_used = Some ''POST'',
              url = Some ''http://x/upload'', file_used = ''docs/invoice.pdf'',
              document_type = Some (JStr (ustr ''invoice'')), success = False,
              status_code = Some 422, error_message = ''passport required'',
              response_headers = Some [], retry_success = None, correct_document = None\<rparr>"
    unfolding result_def random_file_def available_def by code_simp
  have s: "\<not> success result"
    by (simp add: r)
  have t: "truthy (ask_gemini_what_went_wrong rejecting_world 0 result)"
    unfolding r by code_simp
  have d: "find_document_by_type rejecting_world invoice_first (ask_gemini_what_went_wrong rejecting_world 0 result) =
             Inr (Some ''docs/passport_scan.pdf'')"
    unfolding r by code_simp
  have n: "''docs/passport_scan.pdf'' \<noteq> []"
    by simp
  have rs: "\<not> success retry_result"
    unfolding retry_result_def by code_simp
  have u: "used_documents initial_state = {}" "results initial_state = []"
          "dispatches initial_state = []"
    by (simp_all add: initial_state_def)
  have b: "basename ''docs/invoice.pdf'' = ''invoice.pdf''"
    by code_simp
  show ?thesis
    using failed_retry_not_reported [OF available_def a random_file_def result_def s t d n
            retry_result_def rs]
    by (simp add: u f r b result_doc_type_def)
qed

end
